theory Spec2Isabelle
  imports Main
begin

section \<open>Data model\<close>

text \<open>
  The program is the single function \<open>getImage\<close> of \<open>cmd/root.go\<close>. It is a straight line
  of calls into the registry client (\<open>name\<close>, \<open>remote\<close>), the filesystem (\<open>os\<close>, \<open>io\<close>) and the
  logger (\<open>zap\<close>). None of these libraries is part of the program, so they are a parameter
  of the model (the record \<open>env\<close>), and every call that has an effect outside the
  process is written to a trace of events, in program order. A call of the logger is
  written to the trace whatever the verbosity is (without \<open>--verbose\<close> the logger drops
  the Debug messages it is given).

  Go strings are byte sequences, as \<open>string\<close> is here. An \<open>error\<close> value is represented by
  its message (what \<open>%s\<close> prints), a \<open>name.Repository\<close> and a \<open>v1.Hash\<close> by their \<open>String()\<close>.
\<close>

type_synonym err = string
type_synonym repository = string
type_synonym hash = string

text \<open>\<open>name.Reference\<close> is an interface with two implementations; the type switch of
  \<open>getImage\<close> inspects which one \<open>name.ParseReference\<close> returned.\<close>

datatype reference = NameTag string | NameDigest string

text \<open>\<open>v1.Descriptor\<close> and \<open>remote.Descriptor\<close> (which embeds the former): only the field
  read by the program.\<close>

record v1_descriptor =
  Digest :: hash

record remote_descriptor =
  Descriptor :: v1_descriptor

text \<open>The \<open>io.ReadCloser\<close> returned by \<open>layer.Compressed()\<close>: what \<open>io.ReadAll\<close> yields on it.\<close>

record blob =
  blob_ReadAll :: "err + string"

text \<open>A \<open>v1.Layer\<close>: the results of the four methods the program calls. \<open>MediaType\<close> and
  \<open>Size\<close> have their error discarded by the program (\<open>mediaType, _ :=\<close>), so only the value
  is kept; \<open>Digest\<close> keeps the pair (value, error), as the value is printed before the
  error is looked at.\<close>

record layer =
  layer_MediaType :: string
  layer_Digest :: "hash \<times> err option"
  layer_Size :: int
  layer_Compressed :: "err + blob"

record image =
  img_Layers :: "err + layer list"

text \<open>The collaborators. A Go result \<open>(v, err)\<close> that the program reads only after
  \<open>err == nil\<close> is a sum (\<open>Inl\<close> the error). \<open>remote.Get\<close> is kept as the pair
  (pointer, error): the program reads the pointer whatever the error is.\<close>

record env =
  name_NewRepository :: "string \<Rightarrow> err + repository"
  name_ParseReference :: "string \<Rightarrow> err + reference"
  remote_List :: "repository \<Rightarrow> err + string list"
  remote_Head :: "reference \<Rightarrow> err + v1_descriptor"
  remote_Get :: "reference \<Rightarrow> remote_descriptor option \<times> err option"
  remote_Image :: "reference \<Rightarrow> err + image"
  os_MkdirTemp :: "string \<Rightarrow> string \<Rightarrow> err + string"
  os_WriteFile :: "string \<Rightarrow> string \<Rightarrow> nat \<Rightarrow> err option"

datatype level = Debug | Info | Error | Fatal

datatype event =
    Log level string
  | RemoteList repository
  | RemoteHead reference
  | RemoteGet reference
  | RemoteImage reference
  | LayerCompressed layer
  | MkdirTemp string string
  | IoReadAll
  | WriteFile string string nat
  | BlobClose

text \<open>How a run ends: the function returns (\<open>Done\<close>), the process is terminated by
  \<open>os.Exit\<close> (which is what zap's \<open>logger.Fatal\<close> does after writing the message, with
  status 1, and which runs no deferred call), or the Go runtime panics.\<close>

datatype panic = IndexOutOfRange nat nat | NilDereference

datatype 'a result = Done 'a | OsExit nat | Panic panic

type_synonym 'a run = "'a result \<times> event list"

section \<open>Library functions used by the program\<close>

definition HasPrefix :: "string \<Rightarrow> string \<Rightarrow> bool" where
  "HasPrefix s p = (take (length p) s = p)"

definition TrimPrefix :: "string \<Rightarrow> string \<Rightarrow> string" where
  "TrimPrefix s p = (if HasPrefix s p then drop (length p) s else s)"

text \<open>\<open>strings.Split\<close> for a separator of one byte (the program splits on \<open>":"\<close>): cut at
  the first separator, go on with what follows it; what is left when no separator is
  found is the last field.\<close>

function Split :: "string \<Rightarrow> char \<Rightarrow> string list" where
  "Split s sep =
     (case dropWhile (\<lambda>c. c \<noteq> sep) s of
        [] \<Rightarrow> [s]
      | _ # rest \<Rightarrow> takeWhile (\<lambda>c. c \<noteq> sep) s # Split rest sep)"
  by pat_completeness auto
termination
proof (relation "measure (\<lambda>(s, sep). length s)")
  show "wf (measure (\<lambda>(s, sep). length s))" by simp
next
  fix s :: string and sep x rest
  assume "dropWhile (\<lambda>c. c \<noteq> sep) s = x # rest"
  then have "length (x # rest) \<le> length s"
    using length_dropWhile_le [of "\<lambda>c. c \<noteq> sep" s] by simp
  then show "((rest, sep), (s, sep)) \<in> measure (\<lambda>(s, sep). length s)" by simp
qed

declare Split.simps [simp del]

text \<open>Indexing a slice: out of range is a runtime panic.\<close>

definition index :: "'a list \<Rightarrow> nat \<Rightarrow> panic + 'a" where
  "index xs i = (if i < length xs then Inr (xs ! i) else Inl (IndexOutOfRange i (length xs)))"

text \<open>\<open>slices.Contains\<close>.\<close>

definition Contains :: "string list \<Rightarrow> string \<Rightarrow> bool" where
  "Contains xs x = (x \<in> set xs)"

text \<open>What \<open>fmt.Sprintf\<close> prints: \<open>%s\<close> of a string is the string, \<open>%s\<close> of a
  \<open>[]string\<close> is its elements between brackets, separated by spaces, \<open>%d\<close> is decimal.\<close>

primrec Join :: "string list \<Rightarrow> string \<Rightarrow> string" where
  "Join [] sep = []"
| "Join (x # xs) sep = (if xs = [] then x else x @ sep @ Join xs sep)"

definition show_strings :: "string list \<Rightarrow> string" where
  "show_strings xs = ''['' @ Join xs '' '' @ '']''"

definition digit :: "nat \<Rightarrow> char" where
  "digit d = char_of (48 + d)"

fun show_nat :: "nat \<Rightarrow> string" where
  "show_nat n = (if n < 10 then [digit n] else show_nat (n div 10) @ [digit (n mod 10)])"

declare show_nat.simps [simp del]

definition show_int :: "int \<Rightarrow> string" where
  "show_int i = (if i < 0 then ''-'' @ show_nat (nat (- i)) else show_nat (nat i))"

section \<open>The program\<close>

definition emit :: "event list \<Rightarrow> 'a run \<Rightarrow> 'a run" where
  "emit evs r = (fst r, evs @ snd r)"

text \<open>Sequencing: what follows runs only when what precedes has returned; an exit or a
  panic ends the run with the events so far.\<close>

definition and_then :: "'a run \<Rightarrow> ('a \<Rightarrow> 'b run) \<Rightarrow> 'b run" where
  "and_then r f =
     (case fst r of
        Done x \<Rightarrow> emit (snd r) (f x)
      | OsExit n \<Rightarrow> (OsExit n, snd r)
      | Panic p \<Rightarrow> (Panic p, snd r))"

text \<open>\<open>logger.Fatal(msg)\<close>: the message is written, then the process exits with status 1.\<close>

definition fatal :: "string \<Rightarrow> 'a run" where
  "fatal msg = (OsExit 1, [Log Fatal msg])"

text \<open>Lines 152 to 164, the body of the loop over the layers: it only logs.\<close>

definition log_layer :: "layer \<Rightarrow> event list" where
  "log_layer l =
     [Log Debug (''Layer Digest: '' @ fst (layer_Digest l)),
      Log Debug (''MediaType: '' @ layer_MediaType l),
      Log Debug (''Size: '' @ show_int (layer_Size l))] @
     (case snd (layer_Digest l) of
        Some e \<Rightarrow> [Log Error (''Error getting media type: '' @ e)]
      | None \<Rightarrow> [Log Debug (''Layer: '' @ layer_MediaType l)])"

primrec log_layers :: "layer list \<Rightarrow> event list" where
  "log_layers [] = []"
| "log_layers (l # ls) = log_layer l @ log_layers ls"

text \<open>Lines 168 to 192: the temporary directory, the blob of the chosen layer, the file.
  \<open>defer blob.Close()\<close> is registered once \<open>Compressed\<close> has succeeded and runs when the
  function returns; the exits through \<open>logger.Fatal\<close> do not run it.\<close>

definition write_layer :: "env \<Rightarrow> layer \<Rightarrow> unit run" where
  "write_layer E l =
     emit [MkdirTemp ''/tmp'' ''layer'']
       (case os_MkdirTemp E ''/tmp'' ''layer'' of
          Inl e \<Rightarrow> fatal (''Error creating temp dir: '' @ e)
        | Inr dir \<Rightarrow>
            emit [LayerCompressed l]
              (case layer_Compressed l of
                 Inl e \<Rightarrow> fatal (''Error getting compressed layer: '' @ e)
               | Inr b \<Rightarrow>
                   emit [IoReadAll]
                     (case blob_ReadAll b of
                        Inl e \<Rightarrow> fatal (''Error reading blob: '' @ e)
                      | Inr data \<Rightarrow>
                          emit [WriteFile (dir @ ''/'' @ ''layer.tar.gz'') data 420]
                            (case os_WriteFile E (dir @ ''/'' @ ''layer.tar.gz'') data 420 of
                               Some e \<Rightarrow> fatal (''Error writing file: '' @ e)
                             | None \<Rightarrow>
                                 (Done (),
                                  [Log Info (''Layer written to '' @ dir @ ''/layer.tar.gz''),
                                   BlobClose])))))"

text \<open>Lines 141 to 166: the image, its layers, the loop that logs them, \<open>layers[0]\<close>.\<close>

definition extractLayer :: "env \<Rightarrow> reference \<Rightarrow> unit run" where
  "extractLayer E ref =
     emit [RemoteImage ref]
       (case remote_Image E ref of
          Inl e \<Rightarrow> fatal (''Error getting image: '' @ e)
        | Inr img \<Rightarrow>
            (case img_Layers img of
               Inl e \<Rightarrow> fatal (''Error getting layers: '' @ e)
             | Inr layers \<Rightarrow>
                 emit (log_layers layers)
                   (case index layers 0 of
                      Inl p \<Rightarrow> (Panic p, [])
                    | Inr l \<Rightarrow> write_layer E l)))"

text \<open>Lines 118 to 139, the type switch. The result is the local variable \<open>revision\<close>,
  which stays empty for a digest reference.\<close>

definition revision_of :: "string \<Rightarrow> hash \<Rightarrow> string" where
  "revision_of tag digest = tag @ ''@'' @ digest"

definition pulling :: "string \<Rightarrow> hash \<Rightarrow> string run" where
  "pulling tag digest =
     (Done (revision_of tag digest), [Log Info (''Pulling image '' @ revision_of tag digest)])"

definition resolve_digest :: "env \<Rightarrow> string \<Rightarrow> reference \<Rightarrow> string run" where
  "resolve_digest E tag ref =
     (case ref of
        NameDigest _ \<Rightarrow> (Done [], [])
      | NameTag _ \<Rightarrow>
          emit [Log Debug ''Tagged image'', RemoteHead ref]
            (case remote_Head E ref of
               Inr desc \<Rightarrow>
                 emit [Log Debug (''Digest from Head: '' @ Digest desc)]
                   (pulling tag (Digest desc))
             | Inl _ \<Rightarrow>
                 emit [RemoteGet ref]
                   (case remote_Get E ref of
                      (gdesc, gerr) \<Rightarrow>
                        emit (case gerr of
                                Some e \<Rightarrow> [Log Error (''Error getting image: '' @ e)]
                              | None \<Rightarrow> [])
                          (case gdesc of
                             None \<Rightarrow> (Panic NilDereference, [])
                           | Some g \<Rightarrow> pulling tag (Digest (Descriptor g))))))"

text \<open>Lines 74 to 139: from the input string to the reference and its revision.\<close>

definition resolve :: "env \<Rightarrow> string \<Rightarrow> (reference \<times> string) run" where
  "resolve E ociImage =
     emit [Log Debug (''Checking image '' @ ociImage)]
       (if \<not> HasPrefix ociImage ''oci://''
        then fatal ''Image must be in the format oci://<domain>/<org>/<repo>''
        else
          let url = TrimPrefix ociImage ''oci://'' in
          (case index (Split url CHR '':'') 1 of
             Inl p \<Rightarrow> (Panic p, [])
           | Inr tag \<Rightarrow>
               emit [Log Debug (''Tag: '' @ tag), Log Debug (''URL: '' @ url)]
                 (case index (Split url CHR '':'') 0 of
                    Inl p \<Rightarrow> (Panic p, [])
                  | Inr base \<Rightarrow>
                      (case name_NewRepository E base of
                         Inl e \<Rightarrow> fatal (''Error parsing repository: '' @ e)
                       | Inr r \<Rightarrow>
                           emit [Log Debug (''Repository: '' @ r), RemoteList r]
                             (case remote_List E r of
                                Inl e \<Rightarrow> fatal (''Error listing tags: '' @ e)
                              | Inr tags \<Rightarrow>
                                  emit [Log Debug (''Tags: '' @ show_strings tags)]
                                    (let tag = (if tag = [] then ''latest'' else tag) in
                                     emit (if \<not> Contains tags tag
                                           then [Log Debug (''Tag '' @ tag @ '' not found in repository'')]
                                           else [])
                                       (case name_ParseReference E url of
                                          Inl e \<Rightarrow> fatal (''Error parsing image reference: '' @ e)
                                        | Inr ref \<Rightarrow>
                                            and_then (resolve_digest E tag ref)
                                              (\<lambda>revision. (Done (ref, revision), [])))))))))"

text \<open>The whole function.\<close>

definition getImage :: "env \<Rightarrow> string \<Rightarrow> unit run" where
  "getImage E ociImage =
     and_then (resolve E ociImage) (\<lambda>(ref, revision). extractLayer E ref)"

section \<open>Observations on a run\<close>

text \<open>The calls that reach the registry, and the calls that write to the filesystem.\<close>

fun is_network :: "event \<Rightarrow> bool" where
  "is_network (RemoteList _) = True"
| "is_network (RemoteHead _) = True"
| "is_network (RemoteGet _) = True"
| "is_network (RemoteImage _) = True"
| "is_network (LayerCompressed _) = True"
| "is_network _ = False"

fun is_filesystem :: "event \<Rightarrow> bool" where
  "is_filesystem (MkdirTemp _ _) = True"
| "is_filesystem (WriteFile _ _ _) = True"
| "is_filesystem _ = False"

fun is_debug :: "event \<Rightarrow> bool" where
  "is_debug (Log Debug _) = True"
| "is_debug _ = False"

text \<open>A run exits only through \<open>logger.Fatal\<close>: the status is 1 and the Fatal message is
  the last event; and a Fatal message is never followed by anything.\<close>

definition exits_by_fatal :: "'a run \<Rightarrow> bool" where
  "exits_by_fatal r =
     ((\<forall>n. fst r = OsExit n \<longrightarrow> n = 1 \<and> (\<exists>pre msg. snd r = pre @ [Log Fatal msg])) \<and>
      (\<forall>msg. Log Fatal msg \<in> set (snd r) \<longrightarrow> fst r = OsExit 1))"

section \<open>A registry and a filesystem to run the program on\<close>

definition demo_layer :: "string \<Rightarrow> string \<Rightarrow> layer" where
  "demo_layer mt data =
     \<lparr>layer_MediaType = mt, layer_Digest = (''sha256:bbb'', None),
      layer_Size = int (length data),
      layer_Compressed = Inr \<lparr>blob_ReadAll = Inr data\<rparr>\<rparr>"

definition demo_image :: image where
  "demo_image =
     \<lparr>img_Layers = Inr [demo_layer ''text/plain'' ''abc'', demo_layer ''application/gzip'' ''de'']\<rparr>"

text \<open>What \<open>name.NewRepository\<close> of the registry client does with a name, in outline: the
  part before the first \<open>/\<close> is the registry when it has a \<open>.\<close> or a \<open>:\<close>, otherwise the
  registry is Docker Hub; the repository may only contain the characters below and has
  2 to 255 of them; on Docker Hub a repository without \<open>/\<close> is under \<open>library/\<close>.\<close>

definition repositoryChars :: string where
  "repositoryChars = ''abcdefghijklmnopqrstuvwxyz0123456789_-./''"

definition lib_NewRepository :: "string \<Rightarrow> err + repository" where
  "lib_NewRepository name =
     (if name = [] then Inl ''a repository name must be specified''
      else
        let first = takeWhile (\<lambda>c. c \<noteq> CHR ''/'') name;
            rest = drop 1 (dropWhile (\<lambda>c. c \<noteq> CHR ''/'') name);
            has_registry =
              (CHR ''/'' \<in> set name \<and> (CHR ''.'' \<in> set first \<or> CHR '':'' \<in> set first));
            registry = (if has_registry then first else []);
            repo = (if has_registry then rest else name)
        in if \<not> list_all (\<lambda>c. c \<in> set repositoryChars) repo
           then Inl (''repository can only contain the characters '' @ repositoryChars @ '': '' @ repo)
           else if length repo < 2 \<or> 255 < length repo
           then Inl (''repository must be between 2 and 255 characters in length: '' @ repo)
           else if registry = []
           then Inr (if CHR ''/'' \<in> set repo then ''index.docker.io/'' @ repo
                     else ''index.docker.io/library/'' @ repo)
           else Inr (registry @ ''/'' @ repo))"

text \<open>Every call to the registry and to the filesystem succeeds; a name with \<open>@\<close> parses
  to a digest reference, any other to a tag reference.\<close>

definition demo_env :: env where
  "demo_env =
     \<lparr>name_NewRepository = lib_NewRepository,
      name_ParseReference =
        (\<lambda>s. if CHR ''@'' \<in> set s then Inr (NameDigest s) else Inr (NameTag s)),
      remote_List = (\<lambda>r. Inr [''latest'', ''v1'']),
      remote_Head = (\<lambda>ref. Inr \<lparr>Digest = ''sha256:aaa''\<rparr>),
      remote_Get = (\<lambda>ref. (Some \<lparr>Descriptor = \<lparr>Digest = ''sha256:ccc''\<rparr>\<rparr>, None)),
      remote_Image = (\<lambda>ref. Inr demo_image),
      os_MkdirTemp = (\<lambda>dir pat. Inr (dir @ ''/'' @ pat @ ''123'')),
      os_WriteFile = (\<lambda>path data perm. None)\<rparr>"

text \<open>A reference by digest, on a registry with a port: the input, the name that is
  left when the scheme is removed, and the hexadecimal part of the digest.\<close>

abbreviation digest_hex :: string where
  "digest_hex \<equiv> ''e3b0c44298fc1c149afbf4c8996fb92427ae41e4649b934ca495991b7852b855''"

abbreviation digest_name :: string where
  "digest_name \<equiv> ''localhost:5000/org/app@sha256:'' @ digest_hex"

abbreviation digest_input :: string where
  "digest_input \<equiv> ''oci://'' @ digest_name"

text \<open>The same reference on a registry without a port, and a tag reference on a registry
  with a port.\<close>

abbreviation canonical_digest_input :: string where
  "canonical_digest_input \<equiv> ''oci://reg.example.com/org/app@sha256:'' @ digest_hex"

abbreviation port_tag_input :: string where
  "port_tag_input \<equiv> ''oci://localhost:5000/org/app:v1''"

text \<open>The registry answers neither \<open>HEAD\<close> nor \<open>GET\<close> on the manifest: \<open>remote.Get\<close> returns
  a nil descriptor with its error.\<close>

definition env_no_digest :: env where
  "env_no_digest =
     demo_env\<lparr>remote_Head := (\<lambda>ref. Inl ''HEAD: 404''),
              remote_Get := (\<lambda>ref. (None, Some ''GET: 404''))\<rparr>"

text \<open>The manifest has no layer.\<close>

definition env_no_layers :: env where
  "env_no_layers = demo_env\<lparr>remote_Image := (\<lambda>ref. Inr \<lparr>img_Layers = Inr []\<rparr>)\<rparr>"

text \<open>The blob opens, and reading it fails.\<close>

definition broken_layer :: layer where
  "broken_layer =
     \<lparr>layer_MediaType = ''application/gzip'', layer_Digest = (''sha256:bbb'', None),
      layer_Size = 5, layer_Compressed = Inr \<lparr>blob_ReadAll = Inl ''unexpected EOF''\<rparr>\<rparr>"

definition env_read_fails :: env where
  "env_read_fails = demo_env\<lparr>remote_Image := (\<lambda>ref. Inr \<lparr>img_Layers = Inr [broken_layer]\<rparr>)\<rparr>"

text \<open>Listing the tags fails.\<close>

definition env_list_fails :: env where
  "env_list_fails = demo_env\<lparr>remote_List := (\<lambda>r. Inl ''UNAUTHORIZED'')\<rparr>"

text \<open>One environment for each of the other calls whose failure the program treats as
  fatal.\<close>

definition env_parse_fails :: env where
  "env_parse_fails = demo_env\<lparr>name_ParseReference := (\<lambda>s. Inl ''could not parse reference'')\<rparr>"

definition env_image_fails :: env where
  "env_image_fails = demo_env\<lparr>remote_Image := (\<lambda>ref. Inl ''MANIFEST_UNKNOWN'')\<rparr>"

definition env_layers_fails :: env where
  "env_layers_fails = demo_env\<lparr>remote_Image := (\<lambda>ref. Inr \<lparr>img_Layers = Inl ''bad manifest''\<rparr>)\<rparr>"

definition env_mkdir_fails :: env where
  "env_mkdir_fails = demo_env\<lparr>os_MkdirTemp := (\<lambda>dir pat. Inl ''permission denied'')\<rparr>"

definition closed_layer :: layer where
  "closed_layer =
     \<lparr>layer_MediaType = ''application/gzip'', layer_Digest = (''sha256:bbb'', None),
      layer_Size = 5, layer_Compressed = Inl ''BLOB_UNKNOWN''\<rparr>"

definition env_compressed_fails :: env where
  "env_compressed_fails = demo_env\<lparr>remote_Image := (\<lambda>ref. Inr \<lparr>img_Layers = Inr [closed_layer]\<rparr>)\<rparr>"

definition env_write_fails :: env where
  "env_write_fails = demo_env\<lparr>os_WriteFile := (\<lambda>path data perm. Some ''no space left on device'')\<rparr>"

section \<open>Basic facts\<close>

lemma fst_emit [simp]: "fst (emit evs r) = fst r"
  by (simp add: emit_def)

lemma snd_emit [simp]: "snd (emit evs r) = evs @ snd r"
  by (simp add: emit_def)

lemma fst_fatal [simp]: "fst (fatal msg) = OsExit 1"
  by (simp add: fatal_def)

lemma snd_fatal [simp]: "snd (fatal msg) = [Log Fatal msg]"
  by (simp add: fatal_def)

lemma fst_and_then:
  "fst (and_then r f) =
     (case fst r of Done x \<Rightarrow> fst (f x) | OsExit n \<Rightarrow> OsExit n | Panic p \<Rightarrow> Panic p)"
  by (simp add: and_then_def split: result.splits)

lemma snd_and_then:
  "snd (and_then r f) = snd r @ (case fst r of Done x \<Rightarrow> snd (f x) | _ \<Rightarrow> [])"
  by (simp add: and_then_def split: result.splits)

lemma fst_and_then_emit: "fst (and_then (emit evs r) f) = fst (and_then r f)"
  by (simp add: fst_and_then)

lemma filter_and_then:
  "filter P (snd (and_then (emit evs r) f)) =
     filter P evs @ filter P (snd (and_then r f))"
  by (simp add: snd_and_then)

text \<open>\<open>Split\<close> yields one field when the separator is absent and at least two when it
  occurs.\<close>

lemma Split_no_sep: "sep \<notin> set s \<Longrightarrow> Split s sep = [s]"
proof -
  assume "sep \<notin> set s"
  then have d: "dropWhile (\<lambda>c. c \<noteq> sep) s = []"
    by (auto simp: dropWhile_eq_Nil_conv)
  show ?thesis by (subst Split.simps) (simp only: d list.case)
qed

lemma Split_not_Nil: "Split s sep \<noteq> []"
  by (subst Split.simps) (simp split: list.split)

lemma Split_has_sep: "sep \<in> set s \<Longrightarrow> \<exists>a b rest. Split s sep = a # b # rest"
proof -
  assume "sep \<in> set s"
  then have "dropWhile (\<lambda>c. c \<noteq> sep) s \<noteq> []"
    by (auto simp: dropWhile_eq_Nil_conv)
  then obtain x tl where "dropWhile (\<lambda>c. c \<noteq> sep) s = x # tl"
    by (cases "dropWhile (\<lambda>c. c \<noteq> sep) s") auto
  then have "Split s sep = takeWhile (\<lambda>c. c \<noteq> sep) s # Split tl sep"
    by (subst Split.simps) simp
  moreover obtain b rest where "Split tl sep = b # rest"
    using Split_not_Nil [of tl sep] by (cases "Split tl sep") auto
  ultimately show ?thesis by simp
qed

lemma index_0_1:
  assumes "index xs 1 = Inr t" and "index xs 0 = Inr b"
  shows "\<exists>rest. xs = b # t # rest"
proof (cases xs)
  case Nil
  with assms show ?thesis by (simp add: index_def)
next
  case (Cons y ys)
  with assms show ?thesis by (cases ys) (simp_all add: index_def)
qed

text \<open>The loop over the layers writes log messages only, none of them at Fatal level.\<close>

lemma log_layers_only_logs: "ev \<in> set (log_layers ls) \<Longrightarrow> \<exists>lv msg. ev = Log lv msg \<and> lv \<noteq> Fatal"
  by (induction ls) (auto simp: log_layer_def split: option.splits)

lemma log_layers_no_fatal: "Log Fatal msg \<notin> set (log_layers ls)"
  using log_layers_only_logs [of "Log Fatal msg" ls] by auto

section \<open>The process exits only through \<open>logger.Fatal\<close>\<close>

lemma exits_by_fatal_fatal: "exits_by_fatal (fatal msg)"
  by (simp add: exits_by_fatal_def fatal_def)

lemma exits_by_fatal_emit:
  assumes r: "exits_by_fatal r" and no: "\<forall>msg. Log Fatal msg \<notin> set evs"
  shows "exits_by_fatal (emit evs r)"
proof -
  have a: "n = 1 \<and> (\<exists>pre msg. snd (emit evs r) = pre @ [Log Fatal msg])"
    if "fst (emit evs r) = OsExit n" for n
  proof -
    from that have "fst r = OsExit n" by simp
    with r obtain pre msg where "n = 1" and "snd r = pre @ [Log Fatal msg]"
      unfolding exits_by_fatal_def by blast
    then have "n = 1" and "snd (emit evs r) = (evs @ pre) @ [Log Fatal msg]" by simp_all
    then show ?thesis by blast
  qed
  have b: "fst (emit evs r) = OsExit 1" if "Log Fatal msg \<in> set (snd (emit evs r))" for msg
  proof -
    from that no have "Log Fatal msg \<in> set (snd r)" by simp
    with r have "fst r = OsExit 1" unfolding exits_by_fatal_def by blast
    then show ?thesis by simp
  qed
  from a b show ?thesis unfolding exits_by_fatal_def by blast
qed

lemma exits_by_fatal_and_then:
  assumes "exits_by_fatal r" and "\<And>x. exits_by_fatal (f x)"
  shows "exits_by_fatal (and_then r f)"
proof (cases "fst r")
  case (Done x)
  then have no: "\<forall>msg. Log Fatal msg \<notin> set (snd r)"
    using assms(1) by (auto simp: exits_by_fatal_def)
  have "and_then r f = emit (snd r) (f x)"
    using Done by (simp add: and_then_def)
  with exits_by_fatal_emit [OF assms(2) no] show ?thesis by simp
next
  case (OsExit n)
  then have "and_then r f = (OsExit n, snd r)" by (simp add: and_then_def)
  with assms(1) OsExit show ?thesis by (simp add: exits_by_fatal_def)
next
  case (Panic p)
  then have "and_then r f = (Panic p, snd r)" by (simp add: and_then_def)
  with assms(1) Panic show ?thesis by (simp add: exits_by_fatal_def)
qed

lemma exits_by_fatal_emit_iff:
  assumes no: "\<forall>msg. Log Fatal msg \<notin> set evs"
  shows "exits_by_fatal (emit evs r) = exits_by_fatal r"
proof
  assume "exits_by_fatal r"
  with no show "exits_by_fatal (emit evs r)" by (rule exits_by_fatal_emit [rotated])
next
  assume e: "exits_by_fatal (emit evs r)"
  have a: "n = 1 \<and> (\<exists>pre msg. snd r = pre @ [Log Fatal msg])" if n: "fst r = OsExit n" for n
  proof -
    from n have "fst (emit evs r) = OsExit n" by simp
    with e obtain pre m where n1: "n = 1" and eq: "snd (emit evs r) = pre @ [Log Fatal m]"
      unfolding exits_by_fatal_def by blast
    have "\<exists>pre' m'. snd r = pre' @ [Log Fatal m']"
    proof (cases "snd r" rule: rev_cases)
      case Nil
      with eq have "Log Fatal m \<in> set evs" by simp
      with no show ?thesis by blast
    next
      case (snoc ys y)
      with eq have "y = Log Fatal m" by simp
      with snoc show ?thesis by blast
    qed
    with n1 show ?thesis by blast
  qed
  have b: "fst r = OsExit 1" if "Log Fatal msg \<in> set (snd r)" for msg
  proof -
    from that have "Log Fatal msg \<in> set (snd (emit evs r))" by simp
    with e have "fst (emit evs r) = OsExit 1" unfolding exits_by_fatal_def by blast
    then show ?thesis by simp
  qed
  from a b show "exits_by_fatal r" unfolding exits_by_fatal_def by blast
qed

lemma exits_by_fatal_Done: "exits_by_fatal (Done x, evs) = (\<forall>msg. Log Fatal msg \<notin> set evs)"
  by (simp add: exits_by_fatal_def)

lemma exits_by_fatal_Panic: "exits_by_fatal (Panic p, evs) = (\<forall>msg. Log Fatal msg \<notin> set evs)"
  by (simp add: exits_by_fatal_def)

lemmas exits_simps = exits_by_fatal_emit_iff exits_by_fatal_Done exits_by_fatal_Panic exits_by_fatal_fatal

lemma write_layer_exits: "exits_by_fatal (write_layer E l)"
  by (simp add: write_layer_def exits_simps split: sum.split option.split)

lemma extractLayer_exits: "exits_by_fatal (extractLayer E ref)"
  by (simp add: extractLayer_def exits_simps write_layer_exits log_layers_no_fatal split: sum.split)

lemma resolve_digest_exits: "exits_by_fatal (resolve_digest E tag ref)"
  by (simp add: resolve_digest_def pulling_def exits_simps split: sum.split option.split reference.split prod.split)

lemma resolve_exits: "exits_by_fatal (resolve E s)"
  by (simp add: resolve_def Let_def exits_simps exits_by_fatal_and_then resolve_digest_exits split: sum.split)

lemma getImage_exits: "exits_by_fatal (getImage E s)"
  unfolding getImage_def
  by (intro exits_by_fatal_and_then resolve_exits) (simp add: extractLayer_exits split: prod.split)

section \<open>What each part of a run contains\<close>

lemma write_layer_Done:
  assumes "fst (write_layer E l) = Done ()"
  shows "\<exists>dir b data.
           os_MkdirTemp E ''/tmp'' ''layer'' = Inr dir \<and> layer_Compressed l = Inr b \<and>
           blob_ReadAll b = Inr data \<and>
           os_WriteFile E (dir @ ''/'' @ ''layer.tar.gz'') data 420 = None \<and>
           snd (write_layer E l) =
             [MkdirTemp ''/tmp'' ''layer'', LayerCompressed l, IoReadAll,
              WriteFile (dir @ ''/'' @ ''layer.tar.gz'') data 420,
              Log Info (''Layer written to '' @ dir @ ''/layer.tar.gz''), BlobClose]"
  using assms
  by (auto simp: write_layer_def split: sum.splits option.splits)

lemma write_layer_events:
  assumes "ev \<in> set (snd (write_layer E l))"
  shows "(\<exists>lv m. ev = Log lv m) \<or> ev = MkdirTemp ''/tmp'' ''layer'' \<or> ev = LayerCompressed l \<or>
         ev = IoReadAll \<or> ev = BlobClose \<or>
         (\<exists>dir b data. os_MkdirTemp E ''/tmp'' ''layer'' = Inr dir \<and> layer_Compressed l = Inr b \<and>
            blob_ReadAll b = Inr data \<and> ev = WriteFile (dir @ ''/'' @ ''layer.tar.gz'') data 420)"
  using assms
  by (auto simp: write_layer_def split: sum.splits option.splits)

lemma extractLayer_layers:
  assumes "remote_Image E ref = Inr img" and "img_Layers img = Inr (l # ls)"
  shows "extractLayer E ref = emit (RemoteImage ref # log_layers (l # ls)) (write_layer E l)"
  using assms by (simp add: extractLayer_def index_def emit_def)

lemma extractLayer_no_layers:
  assumes "remote_Image E ref = Inr img" and "img_Layers img = Inr []"
  shows "extractLayer E ref = (Panic (IndexOutOfRange 0 0), [RemoteImage ref])"
  using assms by (simp add: extractLayer_def index_def emit_def)

lemma extractLayer_Done:
  assumes "fst (extractLayer E ref) = Done ()"
  shows "\<exists>img l ls. remote_Image E ref = Inr img \<and> img_Layers img = Inr (l # ls) \<and>
           fst (write_layer E l) = Done ()"
proof (cases "remote_Image E ref")
  case (Inl e)
  with assms show ?thesis by (simp add: extractLayer_def)
next
  case img: (Inr img)
  show ?thesis
  proof (cases "img_Layers img")
    case (Inl e)
    with assms img show ?thesis by (simp add: extractLayer_def)
  next
    case (Inr layers)
    show ?thesis
    proof (cases layers)
      case Nil
      with assms img Inr show ?thesis by (simp add: extractLayer_no_layers)
    next
      case (Cons l ls)
      with assms img Inr show ?thesis by (simp add: extractLayer_layers)
    qed
  qed
qed

lemma extractLayer_events:
  assumes "ev \<in> set (snd (extractLayer E ref))"
  shows "ev = RemoteImage ref \<or> (\<exists>lv m. ev = Log lv m) \<or>
         (\<exists>img l ls. remote_Image E ref = Inr img \<and> img_Layers img = Inr (l # ls) \<and>
            ev \<in> set (snd (write_layer E l)))"
proof (cases "remote_Image E ref")
  case (Inl e)
  with assms show ?thesis by (auto simp: extractLayer_def)
next
  case img: (Inr img)
  show ?thesis
  proof (cases "img_Layers img")
    case (Inl e)
    with assms img show ?thesis by (auto simp: extractLayer_def)
  next
    case (Inr layers)
    show ?thesis
    proof (cases layers)
      case Nil
      with assms img Inr show ?thesis by (simp add: extractLayer_no_layers)
    next
      case (Cons l ls)
      with assms img Inr log_layers_only_logs [of ev layers] show ?thesis
        by (auto simp: extractLayer_layers)
    qed
  qed
qed

lemma extractLayer_network:
  assumes "ev \<in> set (snd (extractLayer E ref))" and "is_network ev"
  shows "ev = RemoteImage ref \<or> (\<exists>l. ev = LayerCompressed l)"
  using extractLayer_events [OF assms(1)] assms(2)
  by (auto dest!: write_layer_events)

lemma resolve_digest_events:
  assumes "ev \<in> set (snd (resolve_digest E tag ref))"
  shows "(\<exists>lv m. ev = Log lv m) \<or> ev = RemoteHead ref \<or> ev = RemoteGet ref"
  using assms
  by (auto simp: resolve_digest_def pulling_def split: reference.splits sum.splits prod.splits option.splits)

lemma resolve_digest_is_tag:
  assumes "RemoteHead r \<in> set (snd (resolve_digest E tag ref)) \<or> RemoteGet r \<in> set (snd (resolve_digest E tag ref))"
  shows "r = ref \<and> (\<exists>n. ref = NameTag n)"
  using assms
  by (cases ref) (auto simp: resolve_digest_def pulling_def split: sum.splits prod.splits option.splits)

lemma resolve_digest_head_ok:
  assumes "remote_Head E (NameTag n) = Inr desc"
  shows "resolve_digest E tag (NameTag n) =
     (Done (revision_of tag (Digest desc)),
      [Log Debug ''Tagged image'', RemoteHead (NameTag n),
       Log Debug (''Digest from Head: '' @ Digest desc),
       Log Info (''Pulling image '' @ revision_of tag (Digest desc))])"
  using assms by (simp add: resolve_digest_def pulling_def emit_def)

lemma resolve_events_inv:
  assumes "ev \<in> set (snd (resolve E s))"
  shows "(\<exists>lv m. ev = Log lv m) \<or>
         (\<exists>base r. index (Split (TrimPrefix s ''oci://'') CHR '':'') 0 = Inr base \<and>
            name_NewRepository E base = Inr r \<and> ev = RemoteList r) \<or>
         (\<exists>t ref. index (Split (TrimPrefix s ''oci://'') CHR '':'') 1 = Inr t \<and>
            name_ParseReference E (TrimPrefix s ''oci://'') = Inr ref \<and>
            ev \<in> set (snd (resolve_digest E (if t = [] then ''latest'' else t) ref)))"
  using assms
  by (auto simp: resolve_def Let_def snd_and_then split: if_splits sum.splits result.splits)

lemma resolve_events:
  assumes "ev \<in> set (snd (resolve E s))"
  shows "(\<exists>lv m. ev = Log lv m) \<or> (\<exists>r. ev = RemoteList r) \<or> (\<exists>r. ev = RemoteHead r) \<or> (\<exists>r. ev = RemoteGet r)"
  using resolve_events_inv [OF assms] resolve_digest_events [of ev E]
  by blast

lemma resolve_listing:
  assumes "HasPrefix s ''oci://''"
    and "Split (TrimPrefix s ''oci://'') CHR '':'' = base # t # rest"
    and "name_NewRepository E base = Inr r"
  shows "resolve E s =
     emit [Log Debug (''Checking image '' @ s), Log Debug (''Tag: '' @ t),
           Log Debug (''URL: '' @ TrimPrefix s ''oci://''), Log Debug (''Repository: '' @ r),
           RemoteList r]
       (case remote_List E r of
          Inl e \<Rightarrow> fatal (''Error listing tags: '' @ e)
        | Inr tags \<Rightarrow>
            emit (Log Debug (''Tags: '' @ show_strings tags) #
                  (if Contains tags (if t = [] then ''latest'' else t) then []
                   else [Log Debug (''Tag '' @ (if t = [] then ''latest'' else t) @ '' not found in repository'')]))
              (case name_ParseReference E (TrimPrefix s ''oci://'') of
                 Inl e \<Rightarrow> fatal (''Error parsing image reference: '' @ e)
               | Inr ref \<Rightarrow>
                   and_then (resolve_digest E (if t = [] then ''latest'' else t) ref)
                     (\<lambda>revision. (Done (ref, revision), []))))"
  using assms
  by (simp add: resolve_def Let_def index_def emit_def split: sum.split)


lemma resolve_digest_reached:
  assumes "ev \<in> set (snd (resolve E s))" and "is_network ev" and "\<forall>r. ev \<noteq> RemoteList r"
  shows "\<exists>t base rest r tags ref. HasPrefix s ''oci://'' \<and>
           Split (TrimPrefix s ''oci://'') CHR '':'' = base # t # rest \<and>
           name_NewRepository E base = Inr r \<and> remote_List E r = Inr tags \<and>
           name_ParseReference E (TrimPrefix s ''oci://'') = Inr ref \<and>
           ev \<in> set (snd (resolve_digest E (if t = [] then ''latest'' else t) ref))"
proof -
  have "\<exists>t base r tags ref. HasPrefix s ''oci://'' \<and>
           index (Split (TrimPrefix s ''oci://'') CHR '':'') 1 = Inr t \<and>
           index (Split (TrimPrefix s ''oci://'') CHR '':'') 0 = Inr base \<and>
           name_NewRepository E base = Inr r \<and> remote_List E r = Inr tags \<and>
           name_ParseReference E (TrimPrefix s ''oci://'') = Inr ref \<and>
           ev \<in> set (snd (resolve_digest E (if t = [] then ''latest'' else t) ref))"
    using assms
    by (auto simp: resolve_def Let_def snd_and_then split: if_splits sum.splits result.splits)
  then obtain t base r tags ref where h: "HasPrefix s ''oci://''"
      "index (Split (TrimPrefix s ''oci://'') CHR '':'') 1 = Inr t"
      "index (Split (TrimPrefix s ''oci://'') CHR '':'') 0 = Inr base"
      "name_NewRepository E base = Inr r" "remote_List E r = Inr tags"
      "name_ParseReference E (TrimPrefix s ''oci://'') = Inr ref"
      "ev \<in> set (snd (resolve_digest E (if t = [] then ''latest'' else t) ref))"
    by blast
  from index_0_1 [OF h(2) h(3)] obtain rest
    where "Split (TrimPrefix s ''oci://'') CHR '':'' = base # t # rest" ..
  with h show ?thesis by blast
qed

lemma getImage_Done:
  assumes "fst (getImage E s) = Done ()"
  shows "\<exists>ref rv. fst (resolve E s) = Done (ref, rv) \<and> fst (extractLayer E ref) = Done () \<and>
           snd (getImage E s) = snd (resolve E s) @ snd (extractLayer E ref)"
proof (cases "fst (resolve E s)")
  case (Done x)
  obtain ref rv where x: "x = (ref, rv)" by (cases x)
  with Done assms show ?thesis
    by (simp add: getImage_def fst_and_then snd_and_then)
next
  case (OsExit n)
  with assms show ?thesis by (simp add: getImage_def fst_and_then)
next
  case (Panic p)
  with assms show ?thesis by (simp add: getImage_def fst_and_then)
qed

lemma getImage_events:
  assumes "ev \<in> set (snd (getImage E s))"
  shows "ev \<in> set (snd (resolve E s)) \<or>
         (\<exists>ref rv. fst (resolve E s) = Done (ref, rv) \<and> ev \<in> set (snd (extractLayer E ref)))"
proof (cases "fst (resolve E s)")
  case (Done x)
  obtain ref rv where x: "x = (ref, rv)" by (cases x)
  with Done assms show ?thesis
    by (auto simp: getImage_def snd_and_then)
next
  case (OsExit n)
  with assms show ?thesis by (simp add: getImage_def snd_and_then)
next
  case (Panic p)
  with assms show ?thesis by (simp add: getImage_def snd_and_then)
qed

lemma getImage_after_resolve:
  assumes "fst (resolve E s) = Done (ref, rv)"
  shows "getImage E s = emit (snd (resolve E s)) (extractLayer E ref)"
  using assms by (simp add: getImage_def and_then_def)

text \<open>The result of the tag listing is read by no later step.\<close>

lemma resolve_digest_ignores_listing:
  "resolve_digest (E\<lparr>remote_List := f\<rparr>) tag ref = resolve_digest E tag ref"
  by (simp add: resolve_digest_def split: reference.split sum.split)

lemma write_layer_ignores_listing:
  "write_layer (E\<lparr>remote_List := f\<rparr>) l = write_layer E l"
  by (simp add: write_layer_def split: sum.split)

lemma extractLayer_ignores_listing:
  "extractLayer (E\<lparr>remote_List := f\<rparr>) ref = extractLayer E ref"
  by (simp add: extractLayer_def write_layer_ignores_listing split: sum.split)

section \<open>Resolution\<close>

subsection \<open>C1: a reference without a tag\<close>

text \<open>
  After the scheme is removed, line 84 reads \<open>strings.Split(url, ":")[1]\<close>. When the
  remainder has no \<open>:\<close> the split has one field, and the index expression panics: the
  run ends there, before the repository is parsed and before any registry call. The
  default of line 105 (\<open>if tag == "" { tag = "latest" }\<close>) is reached only when a \<open>:\<close> is
  present and nothing follows it.
\<close>

lemma no_separator_panics:
  assumes "HasPrefix s ''oci://''" and "CHR '':'' \<notin> set (TrimPrefix s ''oci://'')"
  shows "getImage E s = (Panic (IndexOutOfRange 1 1), [Log Debug (''Checking image '' @ s)])"
  using assms
  by (simp add: getImage_def resolve_def and_then_def Split_no_sep index_def emit_def)

text \<open>
  Claim C1 says that a reference whose remainder has no \<open>:\<close> resolves with the tag
  \<open>latest\<close>. On the input of the claim, \<open>oci://reg.example.com/org/app\<close>, the program
  panics with an index out of range (index 1, length 1), whatever the registry is.
\<close>

theorem missing_tag_separator_panics:
  "getImage E ''oci://reg.example.com/org/app'' =
     (Panic (IndexOutOfRange 1 1), [Log Debug ''Checking image oci://reg.example.com/org/app''])"
  using no_separator_panics [of "''oci://reg.example.com/org/app''" E]
  by (simp add: HasPrefix_def TrimPrefix_def)

text \<open>The default is applied when the tag field is present and empty.\<close>

lemma empty_tag_defaults_to_latest:
  "fst (resolve demo_env ''oci://reg.example.com/org/app:'') =
     Done (NameTag ''reg.example.com/org/app:'', ''latest@sha256:aaa'')"
  by code_simp

subsection \<open>C5: a reference without the scheme\<close>

text \<open>
  Claim C5: for every input that lacks the prefix \<open>oci://\<close>, resolution fails with the
  invalid-reference failure (\<open>logger.Fatal\<close> with the message on the expected format, the
  process exits with status 1) and no network call is made: the run consists of the
  first debug message and the Fatal message.
\<close>

theorem missing_scheme_is_fatal_before_any_network_call:
  assumes "\<not> HasPrefix s ''oci://''"
  shows "getImage E s =
           (OsExit 1,
            [Log Debug (''Checking image '' @ s),
             Log Fatal ''Image must be in the format oci://<domain>/<org>/<repo>''])
         \<and> filter is_network (snd (getImage E s)) = []"
  using assms
  by (simp add: getImage_def resolve_def and_then_def fatal_def emit_def)

theorem missing_scheme_witness:
  "\<not> HasPrefix ''not-a-valid-ref'' ''oci://'' \<and>
   getImage demo_env ''not-a-valid-ref'' =
     (OsExit 1,
      [Log Debug ''Checking image not-a-valid-ref'',
       Log Fatal ''Image must be in the format oci://<domain>/<org>/<repo>''])
   \<and> filter is_network (snd (getImage demo_env ''not-a-valid-ref'')) = []"
proof -
  have h: "\<not> HasPrefix ''not-a-valid-ref'' ''oci://''" by (simp add: HasPrefix_def)
  from missing_scheme_is_fatal_before_any_network_call [OF h, of demo_env] h
  show ?thesis by simp
qed

subsection \<open>C10: the tags are listed first\<close>

text \<open>In every run, the first call that reaches the registry, if there is one, is the
  tag listing.\<close>

lemma resolve_network_starts_with_listing:
  "filter is_network (snd (resolve E s)) = [] \<and> (\<forall>x. fst (resolve E s) \<noteq> Done x) \<or>
   (\<exists>r evs. filter is_network (snd (resolve E s)) = RemoteList r # evs)"
  by (auto simp: resolve_def Let_def snd_and_then fst_and_then split: sum.splits result.splits)

lemma listing_precedes_every_registry_call:
  "filter is_network (snd (getImage E s)) = [] \<or>
   (\<exists>r evs. filter is_network (snd (getImage E s)) = RemoteList r # evs)"
proof -
  have "snd (getImage E s) = snd (resolve E s) \<and> (\<forall>x. fst (resolve E s) \<noteq> Done x) \<or>
        (\<exists>post. snd (getImage E s) = snd (resolve E s) @ post \<and> (\<exists>x. fst (resolve E s) = Done x))"
    by (cases "fst (resolve E s)") (auto simp: getImage_def snd_and_then)
  with resolve_network_starts_with_listing [of E s] show ?thesis by auto
qed

text \<open>
  When a reference passes the parsing of lines 78 to 94 (it has the scheme, the split on
  \<open>:\<close> has a second field, \<open>name.NewRepository\<close> accepts the first field), whatever kind
  of reference it is, \<open>remote.List\<close> on the repository is the first registry call of the
  run; when it fails the process exits with status 1 and the listing is the only
  registry call made; when it succeeds, the tags it returned change nothing but debug
  messages, so a tag that is absent from the list is not a failure.
\<close>

lemma listing_is_first_and_its_failure_is_fatal:
  assumes "HasPrefix s ''oci://''"
    and "Split (TrimPrefix s ''oci://'') CHR '':'' = base # t # rest"
    and "name_NewRepository E base = Inr r"
  shows "(\<exists>pre post. snd (getImage E s) = pre @ RemoteList r # post \<and> filter is_network pre = [])
         \<and> (\<forall>e. remote_List E r = Inl e \<longrightarrow>
               fst (getImage E s) = OsExit 1 \<and>
               filter is_network (snd (getImage E s)) = [RemoteList r] \<and>
               last (snd (getImage E s)) = Log Fatal (''Error listing tags: '' @ e))
         \<and> (\<forall>tags tags'. remote_List E r = Inr tags \<longrightarrow>
               fst (getImage (E\<lparr>remote_List := (\<lambda>_. Inr tags')\<rparr>) s) = fst (getImage E s) \<and>
               filter (\<lambda>ev. \<not> is_debug ev) (snd (getImage (E\<lparr>remote_List := (\<lambda>_. Inr tags')\<rparr>) s)) =
               filter (\<lambda>ev. \<not> is_debug ev) (snd (getImage E s)))"
proof -
  note unf = resolve_listing [OF assms(1) assms(2)]
  have a: "\<exists>pre post. snd (getImage E s) = pre @ RemoteList r # post \<and> filter is_network pre = []"
  proof -
    have "snd (getImage E s) =
       [Log Debug (''Checking image '' @ s), Log Debug (''Tag: '' @ t),
        Log Debug (''URL: '' @ TrimPrefix s ''oci://''), Log Debug (''Repository: '' @ r)] @
       RemoteList r # drop 5 (snd (getImage E s))"
      unfolding getImage_def unf [OF assms(3)] by (simp add: snd_and_then)
    moreover have "filter is_network
       [Log Debug (''Checking image '' @ s), Log Debug (''Tag: '' @ t),
        Log Debug (''URL: '' @ TrimPrefix s ''oci://''), Log Debug (''Repository: '' @ r)] = []"
      by simp
    ultimately show ?thesis by blast
  qed
  have b: "fst (getImage E s) = OsExit 1 \<and>
           filter is_network (snd (getImage E s)) = [RemoteList r] \<and>
           last (snd (getImage E s)) = Log Fatal (''Error listing tags: '' @ e)"
    if "remote_List E r = Inl e" for e
    unfolding getImage_def unf [OF assms(3)] using that
    by (simp add: and_then_def emit_def fatal_def)
  have c: "fst (getImage (E\<lparr>remote_List := (\<lambda>_. Inr tags')\<rparr>) s) = fst (getImage E s) \<and>
           filter (\<lambda>ev. \<not> is_debug ev) (snd (getImage (E\<lparr>remote_List := (\<lambda>_. Inr tags')\<rparr>) s)) =
           filter (\<lambda>ev. \<not> is_debug ev) (snd (getImage E s))"
    if "remote_List E r = Inr tags" for tags tags'
  proof -
    have n': "name_NewRepository (E\<lparr>remote_List := (\<lambda>_. Inr tags')\<rparr>) base = Inr r"
      using assms(3) by simp
    show ?thesis
      unfolding getImage_def unf [OF assms(3)] unf [OF n'] using that
      by (simp add: filter_and_then fst_and_then_emit resolve_digest_ignores_listing
            extractLayer_ignores_listing cong: sum.case_cong)
  qed
  from a b c show ?thesis by blast
qed

lemma listing_example:
  "HasPrefix digest_input ''oci://''
   \<and> Split (TrimPrefix digest_input ''oci://'') CHR '':'' =
       ''localhost'' # ''5000/org/app@sha256'' # [digest_hex]
   \<and> name_NewRepository env_list_fails ''localhost'' = Inr ''index.docker.io/library/localhost''
   \<and> remote_List env_list_fails ''index.docker.io/library/localhost'' = Inl ''UNAUTHORIZED''
   \<and> fst (getImage env_list_fails digest_input) = OsExit 1
   \<and> filter is_network (snd (getImage env_list_fails digest_input)) =
       [RemoteList ''index.docker.io/library/localhost'']
   \<and> last (snd (getImage env_list_fails digest_input)) =
       Log Fatal ''Error listing tags: UNAUTHORIZED''
   \<and> remote_List demo_env ''index.docker.io/library/localhost'' = Inr [''latest'', ''v1'']
   \<and> fst (getImage (demo_env\<lparr>remote_List := (\<lambda>_. Inr [''5000/org/app@sha256''])\<rparr>)
            digest_input) =
       fst (getImage demo_env digest_input)
   \<and> fst (getImage demo_env digest_input) = Done ()"
proof -
  have h1: "HasPrefix digest_input ''oci://''"
    by (simp add: HasPrefix_def)
  have h2: "Split (TrimPrefix digest_input ''oci://'') CHR '':'' =
       ''localhost'' # ''5000/org/app@sha256'' # [digest_hex]"
    by code_simp
  have h3: "name_NewRepository env_list_fails ''localhost'' = Inr ''index.docker.io/library/localhost''"
    by code_simp
  have h3': "name_NewRepository demo_env ''localhost'' = Inr ''index.docker.io/library/localhost''"
    by code_simp
  have f: "remote_List env_list_fails ''index.docker.io/library/localhost'' = Inl ''UNAUTHORIZED''"
    by (simp add: env_list_fails_def)
  have g: "remote_List demo_env ''index.docker.io/library/localhost'' = Inr [''latest'', ''v1'']"
    by (simp add: demo_env_def)
  have d: "fst (getImage demo_env digest_input) = Done ()"
    by code_simp
  from listing_is_first_and_its_failure_is_fatal [OF h1 h2 h3]
    listing_is_first_and_its_failure_is_fatal [OF h1 h2 h3']
    h1 h2 h3 f g d
  show ?thesis by simp
qed

text \<open>
  Claim C10 says that the listing is issued first for every well-formed reference,
  digest references included. Two well-formed references never get to line 98. The
  reference without a tag panics at line 84, whatever the registry is. The reference by
  digest on a registry without a port loses everything after its only \<open>:\<close> at line 91,
  so that \<open>name.NewRepository\<close> is given a name that ends in \<open>@sha256\<close> and refuses it: the
  process exits at line 93. In both runs no registry call is made at all.
\<close>

theorem references_that_never_reach_the_listing:
  "fst (getImage E ''oci://reg.example.com/org/app'') = Panic (IndexOutOfRange 1 1)
   \<and> filter is_network (snd (getImage E ''oci://reg.example.com/org/app'')) = []
   \<and> getImage demo_env canonical_digest_input =
       (OsExit 1,
        [Log Debug (''Checking image '' @ canonical_digest_input),
         Log Debug (''Tag: '' @ digest_hex),
         Log Debug (''URL: reg.example.com/org/app@sha256:'' @ digest_hex),
         Log Fatal (''Error parsing repository: repository can only contain the characters '' @
                    repositoryChars @ '': org/app@sha256'')])
   \<and> filter is_network (snd (getImage demo_env canonical_digest_input)) = []"
proof -
  have a: "getImage E ''oci://reg.example.com/org/app'' =
     (Panic (IndexOutOfRange 1 1), [Log Debug ''Checking image oci://reg.example.com/org/app''])"
    using no_separator_panics [of "''oci://reg.example.com/org/app''" E]
    by (simp add: HasPrefix_def TrimPrefix_def)
  have b: "getImage demo_env canonical_digest_input =
       (OsExit 1,
        [Log Debug (''Checking image '' @ canonical_digest_input),
         Log Debug (''Tag: '' @ digest_hex),
         Log Debug (''URL: reg.example.com/org/app@sha256:'' @ digest_hex),
         Log Fatal (''Error parsing repository: repository can only contain the characters '' @
                    repositoryChars @ '': org/app@sha256'')])"
    by code_simp
  show ?thesis unfolding a b by simp
qed

subsection \<open>C6: digest references\<close>



subsection \<open>C7: tag references, \<open>HEAD\<close> succeeds\<close>

text \<open>
  When a run issues \<open>remote.Head\<close> on a reference and the call succeeds, the reference
  is a tag reference, \<open>remote.Get\<close> is never called, and the revision (logged at Info
  level) is \<open>tag\<close>, \<open>@\<close> and the digest of the descriptor that \<open>HEAD\<close> returned. Here \<open>tag\<close>
  is the local variable of that name: the second field of the split on \<open>:\<close>, or \<open>latest\<close>
  when that field is empty.
\<close>

lemma head_digest_is_the_resolved_digest:
  assumes "RemoteHead ref \<in> set (snd (getImage E s))" and "remote_Head E ref = Inr desc"
  shows "\<exists>n base t rest.
           ref = NameTag n \<and>
           Split (TrimPrefix s ''oci://'') CHR '':'' = base # t # rest \<and>
           fst (resolve E s) =
             Done (ref, (if t = [] then ''latest'' else t) @ ''@'' @ Digest desc) \<and>
           Log Info (''Pulling image '' @ (if t = [] then ''latest'' else t) @ ''@'' @ Digest desc)
             \<in> set (snd (getImage E s)) \<and>
           (\<forall>r. RemoteGet r \<notin> set (snd (getImage E s)))"
proof -
  have "RemoteHead ref \<in> set (snd (resolve E s))"
    using getImage_events [OF assms(1)] extractLayer_network [of "RemoteHead ref" E] by auto
  from resolve_digest_reached [OF this]
  obtain t base rest r tags ref' where h: "HasPrefix s ''oci://''"
      "Split (TrimPrefix s ''oci://'') CHR '':'' = base # t # rest"
      "name_NewRepository E base = Inr r" "remote_List E r = Inr tags"
      "name_ParseReference E (TrimPrefix s ''oci://'') = Inr ref'"
      "RemoteHead ref \<in> set (snd (resolve_digest E (if t = [] then ''latest'' else t) ref'))"
    by auto
  define tag where "tag = (if t = [] then ''latest'' else t)"
  from resolve_digest_is_tag [of ref E _ ref'] h(6) obtain n where ref: "ref' = ref" "ref = NameTag n"
    by blast
  have rd: "resolve_digest E tag ref =
     (Done (revision_of tag (Digest desc)),
      [Log Debug ''Tagged image'', RemoteHead ref,
       Log Debug (''Digest from Head: '' @ Digest desc),
       Log Info (''Pulling image '' @ revision_of tag (Digest desc))])"
    using resolve_digest_head_ok [of E n desc tag] assms(2) ref by simp
  have res: "resolve E s =
     (Done (ref, revision_of tag (Digest desc)),
      [Log Debug (''Checking image '' @ s), Log Debug (''Tag: '' @ t),
       Log Debug (''URL: '' @ TrimPrefix s ''oci://''), Log Debug (''Repository: '' @ r),
       RemoteList r, Log Debug (''Tags: '' @ show_strings tags)] @
      (if Contains tags tag then [] else [Log Debug (''Tag '' @ tag @ '' not found in repository'')]) @
      [Log Debug ''Tagged image'', RemoteHead ref,
       Log Debug (''Digest from Head: '' @ Digest desc),
       Log Info (''Pulling image '' @ revision_of tag (Digest desc))])"
    using resolve_listing [OF h(1) h(2) h(3)] h(4) h(5) ref rd
    by (simp add: tag_def [symmetric] and_then_def emit_def)
  then have fst_res: "fst (resolve E s) = Done (ref, revision_of tag (Digest desc))" by simp
  have gi: "getImage E s = emit (snd (resolve E s)) (extractLayer E ref)"
    using getImage_after_resolve [OF fst_res] .
  have info: "Log Info (''Pulling image '' @ revision_of tag (Digest desc)) \<in> set (snd (getImage E s))"
    unfolding gi using res by simp
  have noget: "RemoteGet r' \<notin> set (snd (getImage E s))" for r'
    unfolding gi using res extractLayer_network [of "RemoteGet r'" E ref] by auto
  from ref h(2) fst_res info noget show ?thesis unfolding tag_def revision_of_def by blast
qed

lemma head_digest_example:
  "RemoteHead (NameTag ''reg.example.com/org/app:v1'')
     \<in> set (snd (getImage demo_env ''oci://reg.example.com/org/app:v1''))
   \<and> remote_Head demo_env (NameTag ''reg.example.com/org/app:v1'') = Inr \<lparr>Digest = ''sha256:aaa''\<rparr>
   \<and> fst (resolve demo_env ''oci://reg.example.com/org/app:v1'') =
       Done (NameTag ''reg.example.com/org/app:v1'', ''v1@sha256:aaa'')
   \<and> Log Info ''Pulling image v1@sha256:aaa''
       \<in> set (snd (getImage demo_env ''oci://reg.example.com/org/app:v1''))
   \<and> (\<forall>r. RemoteGet r \<notin> set (snd (getImage demo_env ''oci://reg.example.com/org/app:v1'')))"
proof -
  have h1: "RemoteHead (NameTag ''reg.example.com/org/app:v1'')
     \<in> set (snd (getImage demo_env ''oci://reg.example.com/org/app:v1''))"
    by code_simp
  have h2: "remote_Head demo_env (NameTag ''reg.example.com/org/app:v1'') = Inr \<lparr>Digest = ''sha256:aaa''\<rparr>"
    by (simp add: demo_env_def)
  have sp: "Split (TrimPrefix ''oci://reg.example.com/org/app:v1'' ''oci://'') CHR '':'' =
      [''reg.example.com/org/app'', ''v1'']"
    by code_simp
  from head_digest_is_the_resolved_digest [OF h1 h2] sp h1 h2 show ?thesis
    by auto
qed

text \<open>
  Claim C7 says that the identifier is the tag of the reference, \<open>@\<close>, and the digest
  that the lightweight check returned. The digest is the one of the check. The tag is
  not always the tag of the reference: for \<open>oci://localhost:5000/org/app:v1\<close>, whose tag
  is \<open>v1\<close>, the second field of the split on \<open>:\<close> is \<open>5000/org/app\<close>, and the identifier
  is composed with it.
\<close>

theorem port_reference_is_identified_by_the_wrong_field:
  "fst (resolve demo_env port_tag_input) =
     Done (NameTag ''localhost:5000/org/app:v1'', ''5000/org/app@sha256:aaa'')
   \<and> remote_Head demo_env (NameTag ''localhost:5000/org/app:v1'') = Inr \<lparr>Digest = ''sha256:aaa''\<rparr>
   \<and> Log Info ''Pulling image 5000/org/app@sha256:aaa'' \<in> set (snd (getImage demo_env port_tag_input))
   \<and> Log Info ''Pulling image v1@sha256:aaa'' \<notin> set (snd (getImage demo_env port_tag_input))"
  by code_simp

subsection \<open>C2: tag references, \<open>HEAD\<close> and \<open>GET\<close> both fail\<close>

text \<open>
  When \<open>remote.Get\<close> fails as well, line 131 logs the error at Error level (not Fatal) and
  line 133 reads \<open>gdesc.Descriptor.Digest\<close> through the nil pointer that came with the
  error.
\<close>

lemma resolve_digest_both_fail:
  assumes "remote_Head E (NameTag n) = Inl e" and "remote_Get E (NameTag n) = (None, Some e')"
  shows "resolve_digest E tag (NameTag n) =
     (Panic NilDereference,
      [Log Debug ''Tagged image'', RemoteHead (NameTag n), RemoteGet (NameTag n),
       Log Error (''Error getting image: '' @ e')])"
  using assms by (simp add: resolve_digest_def emit_def)

text \<open>
  Claim C2 says that resolution then fails with the digest-resolution failure and does
  not crash. With a registry that answers neither call, the run on
  \<open>oci://reg.example.com/org/app:v1\<close> ends in a nil-pointer panic right after the Error
  message.
\<close>

theorem head_and_get_both_failing_panics:
  "getImage env_no_digest ''oci://reg.example.com/org/app:v1'' =
     (Panic NilDereference,
      [Log Debug ''Checking image oci://reg.example.com/org/app:v1'',
       Log Debug ''Tag: v1'', Log Debug ''URL: reg.example.com/org/app:v1'',
       Log Debug ''Repository: reg.example.com/org/app'',
       RemoteList ''reg.example.com/org/app'', Log Debug ''Tags: [latest v1]'',
       Log Debug ''Tagged image'',
       RemoteHead (NameTag ''reg.example.com/org/app:v1''),
       RemoteGet (NameTag ''reg.example.com/org/app:v1''),
       Log Error ''Error getting image: GET: 404''])"
  by code_simp

section \<open>Extraction\<close>

subsection \<open>C3: a manifest without layers\<close>

text \<open>
  Claim C3 says that extraction fails with the no-layers failure and writes nothing. Line
  166 reads \<open>layers[0]\<close> with no check of the length: on an empty list the run panics with
  an index out of range (index 0, length 0). It does so before \<open>os.MkdirTemp\<close>, so nothing
  is written; the last event of the run is the fetch of the image.
\<close>

theorem zero_layers_panics:
  "fst (getImage env_no_layers ''oci://reg.example.com/org/app:v1'') = Panic (IndexOutOfRange 0 0)
   \<and> filter is_filesystem (snd (getImage env_no_layers ''oci://reg.example.com/org/app:v1'')) = []
   \<and> last (snd (getImage env_no_layers ''oci://reg.example.com/org/app:v1'')) =
       RemoteImage (NameTag ''reg.example.com/org/app:v1'')"
  by code_simp

subsection \<open>C8: the first layer\<close>

text \<open>
  Claim C8: when the image has at least one layer, extraction goes on with the layer at
  index 0: its blob is the only one that is opened, and the bytes written to the file
  are the bytes read from it. Nothing is assumed of the media types.
\<close>

theorem first_layer_is_the_one_extracted:
  assumes "remote_Image E ref = Inr img" and "img_Layers img = Inr (l # ls)"
  shows "extractLayer E ref = emit (RemoteImage ref # log_layers (l # ls)) (write_layer E l)
         \<and> (\<forall>l'. LayerCompressed l' \<in> set (snd (extractLayer E ref)) \<longrightarrow> l' = l)
         \<and> (\<forall>p d m. WriteFile p d m \<in> set (snd (extractLayer E ref)) \<longrightarrow>
               (\<exists>b. layer_Compressed l = Inr b \<and> blob_ReadAll b = Inr d))"
proof -
  have eq: "extractLayer E ref = emit (RemoteImage ref # log_layers (l # ls)) (write_layer E l)"
    using assms by (rule extractLayer_layers)
  have "ev \<in> set (snd (write_layer E l))"
    if "ev \<in> set (snd (extractLayer E ref))" and "is_network ev \<or> is_filesystem ev" and "ev \<noteq> RemoteImage ref" for ev
    using that log_layers_only_logs [of ev "l # ls"] unfolding eq by auto
  then have a: "l' = l" if "LayerCompressed l' \<in> set (snd (extractLayer E ref))" for l'
    using that write_layer_events [of "LayerCompressed l'" E l] by auto
  have b: "\<exists>b. layer_Compressed l = Inr b \<and> blob_ReadAll b = Inr d"
    if "WriteFile p d m \<in> set (snd (extractLayer E ref))" for p d m
  proof -
    have "WriteFile p d m \<in> set (snd (write_layer E l))"
      using that log_layers_only_logs [of "WriteFile p d m" "l # ls"] unfolding eq by auto
    from write_layer_events [OF this] show ?thesis by auto
  qed
  from eq a b show ?thesis by blast
qed

theorem first_layer_witness:
  "remote_Image demo_env (NameTag ''reg.example.com/org/app:v1'') = Inr demo_image
   \<and> img_Layers demo_image =
       Inr (demo_layer ''text/plain'' ''abc'' # [demo_layer ''application/gzip'' ''de''])
   \<and> extractLayer demo_env (NameTag ''reg.example.com/org/app:v1'') =
       emit (RemoteImage (NameTag ''reg.example.com/org/app:v1'') #
             log_layers (demo_layer ''text/plain'' ''abc'' # [demo_layer ''application/gzip'' ''de'']))
         (write_layer demo_env (demo_layer ''text/plain'' ''abc''))
   \<and> LayerCompressed (demo_layer ''text/plain'' ''abc'')
       \<in> set (snd (extractLayer demo_env (NameTag ''reg.example.com/org/app:v1'')))
   \<and> WriteFile ''/tmp/layer123/layer.tar.gz'' ''abc'' 420
       \<in> set (snd (extractLayer demo_env (NameTag ''reg.example.com/org/app:v1'')))
   \<and> LayerCompressed (demo_layer ''application/gzip'' ''de'')
       \<notin> set (snd (extractLayer demo_env (NameTag ''reg.example.com/org/app:v1'')))"
proof -
  have h1: "remote_Image demo_env (NameTag ''reg.example.com/org/app:v1'') = Inr demo_image"
    by (simp add: demo_env_def)
  have h2: "img_Layers demo_image =
       Inr (demo_layer ''text/plain'' ''abc'' # [demo_layer ''application/gzip'' ''de''])"
    by (simp add: demo_image_def)
  have c: "LayerCompressed (demo_layer ''text/plain'' ''abc'')
       \<in> set (snd (extractLayer demo_env (NameTag ''reg.example.com/org/app:v1'')))"
    by code_simp
  have w: "WriteFile ''/tmp/layer123/layer.tar.gz'' ''abc'' 420
       \<in> set (snd (extractLayer demo_env (NameTag ''reg.example.com/org/app:v1'')))"
    by code_simp
  have n: "demo_layer ''application/gzip'' ''de'' \<noteq> demo_layer ''text/plain'' ''abc''"
    by (simp add: demo_layer_def)
  from first_layer_is_the_one_extracted [OF h1 h2] h1 h2 c w n show ?thesis by blast
qed

subsection \<open>C9: closing the blob\<close>

text \<open>
  The close of the blob stream is deferred (line 180). Whenever \<open>getImage\<close> returns, the
  stream that was opened is closed, once, as the last event of the run.
\<close>

lemma blob_is_closed_when_getImage_returns:
  assumes "fst (getImage E s) = Done ()"
  shows "\<exists>pre l b. snd (getImage E s) = pre @ [BlobClose] \<and> BlobClose \<notin> set pre \<and>
           LayerCompressed l \<in> set pre \<and> layer_Compressed l = Inr b"
proof -
  from getImage_Done [OF assms] obtain ref rv where
    r: "fst (resolve E s) = Done (ref, rv)" and x: "fst (extractLayer E ref) = Done ()"
    and tr: "snd (getImage E s) = snd (resolve E s) @ snd (extractLayer E ref)"
    by blast
  from extractLayer_Done [OF x] obtain img l ls where
    i: "remote_Image E ref = Inr img" "img_Layers img = Inr (l # ls)" and w: "fst (write_layer E l) = Done ()"
    by blast
  from write_layer_Done [OF w] obtain dir b data where
    c: "layer_Compressed l = Inr b"
    and wt: "snd (write_layer E l) =
             [MkdirTemp ''/tmp'' ''layer'', LayerCompressed l, IoReadAll,
              WriteFile (dir @ ''/'' @ ''layer.tar.gz'') data 420,
              Log Info (''Layer written to '' @ dir @ ''/layer.tar.gz'')] @ [BlobClose]"
    by auto
  define pre where "pre = snd (resolve E s) @ RemoteImage ref # log_layers (l # ls) @
             [MkdirTemp ''/tmp'' ''layer'', LayerCompressed l, IoReadAll,
              WriteFile (dir @ ''/'' @ ''layer.tar.gz'') data 420,
              Log Info (''Layer written to '' @ dir @ ''/layer.tar.gz'')]"
  have "snd (getImage E s) = pre @ [BlobClose]"
    unfolding tr pre_def extractLayer_layers [OF i] using wt by simp
  moreover have "BlobClose \<notin> set pre"
    using resolve_events [of BlobClose E s] log_layers_only_logs [of BlobClose "l # ls"]
    unfolding pre_def by auto
  moreover have "LayerCompressed l \<in> set pre" unfolding pre_def by simp
  ultimately show ?thesis using c by blast
qed

lemma blob_is_closed_example:
  "fst (getImage demo_env ''oci://reg.example.com/org/app:v1'') = Done ()
   \<and> (\<exists>pre l b. snd (getImage demo_env ''oci://reg.example.com/org/app:v1'') = pre @ [BlobClose] \<and>
         BlobClose \<notin> set pre \<and> LayerCompressed l \<in> set pre \<and> layer_Compressed l = Inr b)"
proof -
  have h: "fst (getImage demo_env ''oci://reg.example.com/org/app:v1'') = Done ()"
    by code_simp
  from blob_is_closed_when_getImage_returns [OF h] h show ?thesis by blast
qed

text \<open>
  Claim C9 says that the blob stream is closed and the temporary directory released on
  every exit path, failures included. The failures that follow the deferred close (lines
  184 and 189) leave through \<open>logger.Fatal\<close>, which exits the process without running
  deferred calls: with a blob that opens and cannot be read, the run ends with the
  stream open. The directory that \<open>os.MkdirTemp\<close> created is left behind as well: the
  Fatal message is the last event, and the removal of line 173 is commented out.
\<close>

theorem blob_left_open_when_the_read_fails:
  "getImage env_read_fails ''oci://reg.example.com/org/app:v1'' =
     (OsExit 1,
      [Log Debug ''Checking image oci://reg.example.com/org/app:v1'',
       Log Debug ''Tag: v1'', Log Debug ''URL: reg.example.com/org/app:v1'',
       Log Debug ''Repository: reg.example.com/org/app'',
       RemoteList ''reg.example.com/org/app'', Log Debug ''Tags: [latest v1]'',
       Log Debug ''Tagged image'',
       RemoteHead (NameTag ''reg.example.com/org/app:v1''),
       Log Debug ''Digest from Head: sha256:aaa'',
       Log Info ''Pulling image v1@sha256:aaa'',
       RemoteImage (NameTag ''reg.example.com/org/app:v1''),
       Log Debug ''Layer Digest: sha256:bbb'',
       Log Debug ''MediaType: application/gzip'', Log Debug ''Size: 5'',
       Log Debug ''Layer: application/gzip'',
       MkdirTemp ''/tmp'' ''layer'', LayerCompressed broken_layer, IoReadAll,
       Log Fatal ''Error reading blob: unexpected EOF''])
   \<and> layer_Compressed broken_layer = Inr \<lparr>blob_ReadAll = Inl ''unexpected EOF''\<rparr>
   \<and> os_MkdirTemp env_read_fails ''/tmp'' ''layer'' = Inr ''/tmp/layer123''
   \<and> BlobClose \<notin> set (snd (getImage env_read_fails ''oci://reg.example.com/org/app:v1''))"
  by code_simp

section \<open>Failures and the process\<close>

text \<open>
  Claim C4 says that the program never terminates the process itself. A reference
  without the scheme already does: the run ends in \<open>os.Exit(1)\<close>.
\<close>

theorem getImage_exits_the_process_counterexample:
  "fst (getImage demo_env ''not-a-valid-ref'') = OsExit 1"
  by code_simp

text \<open>Each call whose failure the program treats as fatal, and the message it dies
  with.\<close>

lemma getImage_when_resolve_exits:
  assumes "fst (resolve E s) = OsExit n"
  shows "getImage E s = (OsExit n, snd (resolve E s))"
  using assms by (simp add: getImage_def and_then_def)

lemma no_scheme_dies:
  assumes "\<not> HasPrefix s ''oci://''"
  shows "fst (getImage E s) = OsExit 1 \<and> snd (getImage E s) \<noteq> [] \<and>
         last (snd (getImage E s)) = Log Fatal ''Image must be in the format oci://<domain>/<org>/<repo>''"
  using assms by (simp add: getImage_def resolve_def and_then_def fatal_def emit_def)

lemma repository_error_dies:
  assumes "HasPrefix s ''oci://''"
    and "Split (TrimPrefix s ''oci://'') CHR '':'' = base # t # rest"
    and "name_NewRepository E base = Inl e"
  shows "fst (getImage E s) = OsExit 1 \<and> snd (getImage E s) \<noteq> [] \<and>
         last (snd (getImage E s)) = Log Fatal (''Error parsing repository: '' @ e)"
  using assms
  by (simp add: getImage_def resolve_def Let_def index_def and_then_def fatal_def emit_def)

lemma listing_error_dies:
  assumes "HasPrefix s ''oci://''"
    and "Split (TrimPrefix s ''oci://'') CHR '':'' = base # t # rest"
    and "name_NewRepository E base = Inr r" and "remote_List E r = Inl e"
  shows "fst (getImage E s) = OsExit 1 \<and> snd (getImage E s) \<noteq> [] \<and>
         last (snd (getImage E s)) = Log Fatal (''Error listing tags: '' @ e)"
  using assms
  by (simp add: getImage_def resolve_listing and_then_def fatal_def emit_def)

lemma reference_error_dies:
  assumes "HasPrefix s ''oci://''"
    and "Split (TrimPrefix s ''oci://'') CHR '':'' = base # t # rest"
    and "name_NewRepository E base = Inr r" and "remote_List E r = Inr tags"
    and "name_ParseReference E (TrimPrefix s ''oci://'') = Inl e"
  shows "fst (getImage E s) = OsExit 1 \<and> snd (getImage E s) \<noteq> [] \<and>
         last (snd (getImage E s)) = Log Fatal (''Error parsing image reference: '' @ e)"
  using assms
  by (simp add: getImage_def resolve_listing and_then_def fatal_def emit_def)

lemma extraction_decides:
  assumes "fst (resolve E s) = Done (ref, rv)"
  shows "fst (getImage E s) = fst (extractLayer E ref)"
    and "snd (extractLayer E ref) \<noteq> [] \<Longrightarrow> snd (getImage E s) \<noteq> [] \<and>
         last (snd (getImage E s)) = last (snd (extractLayer E ref))"
  using getImage_after_resolve [OF assms] by simp_all

lemma image_error:
  assumes "remote_Image E ref = Inl e"
  shows "extractLayer E ref = (OsExit 1, [RemoteImage ref, Log Fatal (''Error getting image: '' @ e)])"
  using assms by (simp add: extractLayer_def fatal_def emit_def)

lemma layers_error:
  assumes "remote_Image E ref = Inr img" and "img_Layers img = Inl e"
  shows "extractLayer E ref = (OsExit 1, [RemoteImage ref, Log Fatal (''Error getting layers: '' @ e)])"
  using assms by (simp add: extractLayer_def fatal_def emit_def)

lemma mkdir_error:
  assumes "os_MkdirTemp E ''/tmp'' ''layer'' = Inl e"
  shows "write_layer E l =
           (OsExit 1, [MkdirTemp ''/tmp'' ''layer'', Log Fatal (''Error creating temp dir: '' @ e)])"
  using assms by (simp add: write_layer_def fatal_def emit_def)

lemma compressed_error:
  assumes "os_MkdirTemp E ''/tmp'' ''layer'' = Inr dir" and "layer_Compressed l = Inl e"
  shows "write_layer E l =
           (OsExit 1, [MkdirTemp ''/tmp'' ''layer'', LayerCompressed l,
                       Log Fatal (''Error getting compressed layer: '' @ e)])"
  using assms by (simp add: write_layer_def fatal_def emit_def)

lemma read_error:
  assumes "os_MkdirTemp E ''/tmp'' ''layer'' = Inr dir" and "layer_Compressed l = Inr b"
    and "blob_ReadAll b = Inl e"
  shows "write_layer E l =
           (OsExit 1, [MkdirTemp ''/tmp'' ''layer'', LayerCompressed l, IoReadAll,
                       Log Fatal (''Error reading blob: '' @ e)])"
  using assms by (simp add: write_layer_def fatal_def emit_def)

lemma write_error:
  assumes "os_MkdirTemp E ''/tmp'' ''layer'' = Inr dir" and "layer_Compressed l = Inr b"
    and "blob_ReadAll b = Inr data"
    and "os_WriteFile E (dir @ ''/layer.tar.gz'') data 420 = Some e"
  shows "write_layer E l =
           (OsExit 1, [MkdirTemp ''/tmp'' ''layer'', LayerCompressed l, IoReadAll,
                       WriteFile (dir @ ''/layer.tar.gz'') data 420,
                       Log Fatal (''Error writing file: '' @ e)])"
  using assms by (simp add: write_layer_def fatal_def emit_def)

lemma write_success:
  assumes "os_MkdirTemp E ''/tmp'' ''layer'' = Inr dir" and "layer_Compressed l = Inr b"
    and "blob_ReadAll b = Inr data"
    and "os_WriteFile E (dir @ ''/layer.tar.gz'') data 420 = None"
  shows "write_layer E l =
           (Done (), [MkdirTemp ''/tmp'' ''layer'', LayerCompressed l, IoReadAll,
                      WriteFile (dir @ ''/layer.tar.gz'') data 420,
                      Log Info (''Layer written to '' @ dir @ ''/layer.tar.gz''), BlobClose])"
  using assms by (simp add: write_layer_def emit_def)

text \<open>
  Claim C4, amended: \<open>getImage\<close> terminates the process itself. Each of the ten
  failures that it treats as fatal (no scheme; an error of \<open>name.NewRepository\<close>,
  \<open>remote.List\<close>, \<open>name.ParseReference\<close>, \<open>remote.Image\<close>, \<open>img.Layers\<close>, \<open>os.MkdirTemp\<close>,
  \<open>layer.Compressed\<close>, \<open>io.ReadAll\<close> or \<open>os.WriteFile\<close>) ends the run in \<open>os.Exit(1)\<close> right
  after the Fatal message of that failure, and when none of them occurs the function
  returns after closing the blob. Conversely, whenever the process exits, the status is
  1 and the last event is a Fatal message; every Fatal message ends the run with status
  1; and \<open>getImage\<close> returns to its caller, to which nothing is handed, only after
  \<open>os.WriteFile\<close> has written \<open>layer.tar.gz\<close> without error.
\<close>

theorem every_fatal_failure_exits_the_process:
  "(\<not> HasPrefix s ''oci://'' \<longrightarrow>
      fst (getImage E s) = OsExit 1 \<and>
      last (snd (getImage E s)) = Log Fatal ''Image must be in the format oci://<domain>/<org>/<repo>'')
   \<and> (\<forall>base t rest. HasPrefix s ''oci://'' \<and>
         Split (TrimPrefix s ''oci://'') CHR '':'' = base # t # rest \<longrightarrow>
       (\<forall>e. name_NewRepository E base = Inl e \<longrightarrow>
          fst (getImage E s) = OsExit 1 \<and>
          last (snd (getImage E s)) = Log Fatal (''Error parsing repository: '' @ e)) \<and>
       (\<forall>r. name_NewRepository E base = Inr r \<longrightarrow>
          (\<forall>e. remote_List E r = Inl e \<longrightarrow>
             fst (getImage E s) = OsExit 1 \<and>
             last (snd (getImage E s)) = Log Fatal (''Error listing tags: '' @ e)) \<and>
          (\<forall>tags e. remote_List E r = Inr tags \<and>
               name_ParseReference E (TrimPrefix s ''oci://'') = Inl e \<longrightarrow>
             fst (getImage E s) = OsExit 1 \<and>
             last (snd (getImage E s)) = Log Fatal (''Error parsing image reference: '' @ e))))
   \<and> (\<forall>ref rv. fst (resolve E s) = Done (ref, rv) \<longrightarrow>
       (\<forall>e. remote_Image E ref = Inl e \<longrightarrow>
          fst (getImage E s) = OsExit 1 \<and>
          last (snd (getImage E s)) = Log Fatal (''Error getting image: '' @ e)) \<and>
       (\<forall>img. remote_Image E ref = Inr img \<longrightarrow>
          (\<forall>e. img_Layers img = Inl e \<longrightarrow>
             fst (getImage E s) = OsExit 1 \<and>
             last (snd (getImage E s)) = Log Fatal (''Error getting layers: '' @ e)) \<and>
          (\<forall>l ls. img_Layers img = Inr (l # ls) \<longrightarrow>
             (\<forall>e. os_MkdirTemp E ''/tmp'' ''layer'' = Inl e \<longrightarrow>
                fst (getImage E s) = OsExit 1 \<and>
                last (snd (getImage E s)) = Log Fatal (''Error creating temp dir: '' @ e)) \<and>
             (\<forall>dir. os_MkdirTemp E ''/tmp'' ''layer'' = Inr dir \<longrightarrow>
                (\<forall>e. layer_Compressed l = Inl e \<longrightarrow>
                   fst (getImage E s) = OsExit 1 \<and>
                   last (snd (getImage E s)) = Log Fatal (''Error getting compressed layer: '' @ e)) \<and>
                (\<forall>b. layer_Compressed l = Inr b \<longrightarrow>
                   (\<forall>e. blob_ReadAll b = Inl e \<longrightarrow>
                      fst (getImage E s) = OsExit 1 \<and>
                      last (snd (getImage E s)) = Log Fatal (''Error reading blob: '' @ e)) \<and>
                   (\<forall>data. blob_ReadAll b = Inr data \<longrightarrow>
                      (\<forall>e. os_WriteFile E (dir @ ''/layer.tar.gz'') data 420 = Some e \<longrightarrow>
                         fst (getImage E s) = OsExit 1 \<and>
                         last (snd (getImage E s)) = Log Fatal (''Error writing file: '' @ e)) \<and>
                      (os_WriteFile E (dir @ ''/layer.tar.gz'') data 420 = None \<longrightarrow>
                         fst (getImage E s) = Done () \<and>
                         last (snd (getImage E s)) = BlobClose)))))))
   \<and> (\<forall>n. fst (getImage E s) = OsExit n \<longrightarrow>
        n = 1 \<and> (\<exists>pre msg. snd (getImage E s) = pre @ [Log Fatal msg]))
   \<and> (\<forall>msg. Log Fatal msg \<in> set (snd (getImage E s)) \<longrightarrow> fst (getImage E s) = OsExit 1)
   \<and> (fst (getImage E s) = Done () \<longrightarrow>
        (\<exists>dir data. os_WriteFile E (dir @ ''/layer.tar.gz'') data 420 = None \<and>
           WriteFile (dir @ ''/layer.tar.gz'') data 420 \<in> set (snd (getImage E s))))"
proof -
  have res: "(\<forall>e. name_NewRepository E base = Inl e \<longrightarrow>
          fst (getImage E s) = OsExit 1 \<and>
          last (snd (getImage E s)) = Log Fatal (''Error parsing repository: '' @ e)) \<and>
       (\<forall>r. name_NewRepository E base = Inr r \<longrightarrow>
          (\<forall>e. remote_List E r = Inl e \<longrightarrow>
             fst (getImage E s) = OsExit 1 \<and>
             last (snd (getImage E s)) = Log Fatal (''Error listing tags: '' @ e)) \<and>
          (\<forall>tags e. remote_List E r = Inr tags \<and>
               name_ParseReference E (TrimPrefix s ''oci://'') = Inl e \<longrightarrow>
             fst (getImage E s) = OsExit 1 \<and>
             last (snd (getImage E s)) = Log Fatal (''Error parsing image reference: '' @ e)))"
    if "HasPrefix s ''oci://'' \<and> Split (TrimPrefix s ''oci://'') CHR '':'' = base # t # rest"
    for base t rest
    using that repository_error_dies [of s base t rest E] listing_error_dies [of s base t rest E]
      reference_error_dies [of s base t rest E]
    by blast
  have wl: "(\<forall>e. os_MkdirTemp E ''/tmp'' ''layer'' = Inl e \<longrightarrow>
                fst (write_layer E l) = OsExit 1 \<and>
                last (snd (write_layer E l)) = Log Fatal (''Error creating temp dir: '' @ e)) \<and>
             (\<forall>dir. os_MkdirTemp E ''/tmp'' ''layer'' = Inr dir \<longrightarrow>
                (\<forall>e. layer_Compressed l = Inl e \<longrightarrow>
                   fst (write_layer E l) = OsExit 1 \<and>
                   last (snd (write_layer E l)) = Log Fatal (''Error getting compressed layer: '' @ e)) \<and>
                (\<forall>b. layer_Compressed l = Inr b \<longrightarrow>
                   (\<forall>e. blob_ReadAll b = Inl e \<longrightarrow>
                      fst (write_layer E l) = OsExit 1 \<and>
                      last (snd (write_layer E l)) = Log Fatal (''Error reading blob: '' @ e)) \<and>
                   (\<forall>data. blob_ReadAll b = Inr data \<longrightarrow>
                      (\<forall>e. os_WriteFile E (dir @ ''/layer.tar.gz'') data 420 = Some e \<longrightarrow>
                         fst (write_layer E l) = OsExit 1 \<and>
                         last (snd (write_layer E l)) = Log Fatal (''Error writing file: '' @ e)) \<and>
                      (os_WriteFile E (dir @ ''/layer.tar.gz'') data 420 = None \<longrightarrow>
                         fst (write_layer E l) = Done () \<and>
                         last (snd (write_layer E l)) = BlobClose))))" for l
    by (simp add: mkdir_error compressed_error read_error write_error write_success)
  have wne: "snd (write_layer E l) \<noteq> []" for l
    by (simp add: write_layer_def)
  have xne: "snd (extractLayer E ref) \<noteq> []" for ref
    by (simp add: extractLayer_def)
  have ex: "(\<forall>e. remote_Image E ref = Inl e \<longrightarrow>
          fst (extractLayer E ref) = OsExit 1 \<and>
          last (snd (extractLayer E ref)) = Log Fatal (''Error getting image: '' @ e)) \<and>
       (\<forall>img. remote_Image E ref = Inr img \<longrightarrow>
          (\<forall>e. img_Layers img = Inl e \<longrightarrow>
             fst (extractLayer E ref) = OsExit 1 \<and>
             last (snd (extractLayer E ref)) = Log Fatal (''Error getting layers: '' @ e)) \<and>
          (\<forall>l ls. img_Layers img = Inr (l # ls) \<longrightarrow>
             fst (extractLayer E ref) = fst (write_layer E l) \<and>
             last (snd (extractLayer E ref)) = last (snd (write_layer E l))))" for ref
    using wne by (simp add: image_error layers_error extractLayer_layers)
  have ext: "fst (getImage E s) = fst (extractLayer E ref) \<and>
             last (snd (getImage E s)) = last (snd (extractLayer E ref))"
    if "fst (resolve E s) = Done (ref, rv)" for ref rv
    using extraction_decides [OF that] xne by simp
  have old: "(\<forall>n. fst (getImage E s) = OsExit n \<longrightarrow>
        n = 1 \<and> (\<exists>pre msg. snd (getImage E s) = pre @ [Log Fatal msg]))
   \<and> (\<forall>msg. Log Fatal msg \<in> set (snd (getImage E s)) \<longrightarrow> fst (getImage E s) = OsExit 1)"
    using getImage_exits [of E s] unfolding exits_by_fatal_def by blast
  have ret: "fst (getImage E s) = Done () \<longrightarrow>
        (\<exists>dir data. os_WriteFile E (dir @ ''/layer.tar.gz'') data 420 = None \<and>
           WriteFile (dir @ ''/layer.tar.gz'') data 420 \<in> set (snd (getImage E s)))"
  proof
    assume d: "fst (getImage E s) = Done ()"
    from getImage_Done [OF d] obtain ref rv where
      x: "fst (extractLayer E ref) = Done ()"
      and tr: "snd (getImage E s) = snd (resolve E s) @ snd (extractLayer E ref)"
      by blast
    from extractLayer_Done [OF x] obtain img l ls where
      i: "remote_Image E ref = Inr img" "img_Layers img = Inr (l # ls)"
      and w: "fst (write_layer E l) = Done ()"
      by blast
    from write_layer_Done [OF w] obtain dir data where
      "os_WriteFile E (dir @ ''/'' @ ''layer.tar.gz'') data 420 = None"
      "WriteFile (dir @ ''/'' @ ''layer.tar.gz'') data 420 \<in> set (snd (write_layer E l))"
      by auto
    then show "\<exists>dir data. os_WriteFile E (dir @ ''/layer.tar.gz'') data 420 = None \<and>
           WriteFile (dir @ ''/layer.tar.gz'') data 420 \<in> set (snd (getImage E s))"
      unfolding tr extractLayer_layers [OF i] by auto
  qed
  have extr: "(\<forall>e. remote_Image E ref = Inl e \<longrightarrow>
          fst (getImage E s) = OsExit 1 \<and>
          last (snd (getImage E s)) = Log Fatal (''Error getting image: '' @ e)) \<and>
       (\<forall>img. remote_Image E ref = Inr img \<longrightarrow>
          (\<forall>e. img_Layers img = Inl e \<longrightarrow>
             fst (getImage E s) = OsExit 1 \<and>
             last (snd (getImage E s)) = Log Fatal (''Error getting layers: '' @ e)) \<and>
          (\<forall>l ls. img_Layers img = Inr (l # ls) \<longrightarrow>
             fst (getImage E s) = fst (write_layer E l) \<and>
             last (snd (getImage E s)) = last (snd (write_layer E l))))"
    if r: "fst (resolve E s) = Done (ref, rv)" for ref rv
    using ex [of ref] unfolding conjunct1 [OF ext [OF r]] conjunct2 [OF ext [OF r]] .
  have extr': "(\<forall>e. remote_Image E ref = Inl e \<longrightarrow>
          fst (getImage E s) = OsExit 1 \<and>
          last (snd (getImage E s)) = Log Fatal (''Error getting image: '' @ e)) \<and>
       (\<forall>img. remote_Image E ref = Inr img \<longrightarrow>
          (\<forall>e. img_Layers img = Inl e \<longrightarrow>
             fst (getImage E s) = OsExit 1 \<and>
             last (snd (getImage E s)) = Log Fatal (''Error getting layers: '' @ e)) \<and>
          (\<forall>l ls. img_Layers img = Inr (l # ls) \<longrightarrow>
             (\<forall>e. os_MkdirTemp E ''/tmp'' ''layer'' = Inl e \<longrightarrow>
                fst (getImage E s) = OsExit 1 \<and>
                last (snd (getImage E s)) = Log Fatal (''Error creating temp dir: '' @ e)) \<and>
             (\<forall>dir. os_MkdirTemp E ''/tmp'' ''layer'' = Inr dir \<longrightarrow>
                (\<forall>e. layer_Compressed l = Inl e \<longrightarrow>
                   fst (getImage E s) = OsExit 1 \<and>
                   last (snd (getImage E s)) = Log Fatal (''Error getting compressed layer: '' @ e)) \<and>
                (\<forall>b. layer_Compressed l = Inr b \<longrightarrow>
                   (\<forall>e. blob_ReadAll b = Inl e \<longrightarrow>
                      fst (getImage E s) = OsExit 1 \<and>
                      last (snd (getImage E s)) = Log Fatal (''Error reading blob: '' @ e)) \<and>
                   (\<forall>data. blob_ReadAll b = Inr data \<longrightarrow>
                      (\<forall>e. os_WriteFile E (dir @ ''/layer.tar.gz'') data 420 = Some e \<longrightarrow>
                         fst (getImage E s) = OsExit 1 \<and>
                         last (snd (getImage E s)) = Log Fatal (''Error writing file: '' @ e)) \<and>
                      (os_WriteFile E (dir @ ''/layer.tar.gz'') data 420 = None \<longrightarrow>
                         fst (getImage E s) = Done () \<and>
                         last (snd (getImage E s)) = BlobClose))))))"
    if r: "fst (resolve E s) = Done (ref, rv)" for ref rv
  proof (intro conjI allI impI)
    fix e assume "remote_Image E ref = Inl e"
    with extr [OF r] show "fst (getImage E s) = OsExit 1"
      and "last (snd (getImage E s)) = Log Fatal (''Error getting image: '' @ e)" by blast+
  next
    fix img e assume "remote_Image E ref = Inr img" "img_Layers img = Inl e"
    with extr [OF r] show "fst (getImage E s) = OsExit 1"
      and "last (snd (getImage E s)) = Log Fatal (''Error getting layers: '' @ e)" by blast+
  next
    fix img l ls e
    assume "remote_Image E ref = Inr img" "img_Layers img = Inr (l # ls)"
    with extr [OF r] have g: "fst (getImage E s) = fst (write_layer E l)"
      "last (snd (getImage E s)) = last (snd (write_layer E l))" by blast+
    assume "os_MkdirTemp E ''/tmp'' ''layer'' = Inl e"
    with wl [of l] show "fst (getImage E s) = OsExit 1"
      and "last (snd (getImage E s)) = Log Fatal (''Error creating temp dir: '' @ e)"
      unfolding g by blast+
  next
    fix img l ls dir e
    assume "remote_Image E ref = Inr img" "img_Layers img = Inr (l # ls)"
    with extr [OF r] have g: "fst (getImage E s) = fst (write_layer E l)"
      "last (snd (getImage E s)) = last (snd (write_layer E l))" by blast+
    assume "os_MkdirTemp E ''/tmp'' ''layer'' = Inr dir" "layer_Compressed l = Inl e"
    with wl [of l] show "fst (getImage E s) = OsExit 1"
      and "last (snd (getImage E s)) = Log Fatal (''Error getting compressed layer: '' @ e)"
      unfolding g by blast+
  next
    fix img l ls dir b e
    assume "remote_Image E ref = Inr img" "img_Layers img = Inr (l # ls)"
    with extr [OF r] have g: "fst (getImage E s) = fst (write_layer E l)"
      "last (snd (getImage E s)) = last (snd (write_layer E l))" by blast+
    assume "os_MkdirTemp E ''/tmp'' ''layer'' = Inr dir" "layer_Compressed l = Inr b"
      "blob_ReadAll b = Inl e"
    with wl [of l] show "fst (getImage E s) = OsExit 1"
      and "last (snd (getImage E s)) = Log Fatal (''Error reading blob: '' @ e)"
      unfolding g by blast+
  next
    fix img l ls dir b data e
    assume "remote_Image E ref = Inr img" "img_Layers img = Inr (l # ls)"
    with extr [OF r] have g: "fst (getImage E s) = fst (write_layer E l)"
      "last (snd (getImage E s)) = last (snd (write_layer E l))" by blast+
    assume "os_MkdirTemp E ''/tmp'' ''layer'' = Inr dir" "layer_Compressed l = Inr b"
      "blob_ReadAll b = Inr data" "os_WriteFile E (dir @ ''/layer.tar.gz'') data 420 = Some e"
    with wl [of l] show "fst (getImage E s) = OsExit 1"
      and "last (snd (getImage E s)) = Log Fatal (''Error writing file: '' @ e)"
      unfolding g by blast+
  next
    fix img l ls dir b data
    assume "remote_Image E ref = Inr img" "img_Layers img = Inr (l # ls)"
    with extr [OF r] have g: "fst (getImage E s) = fst (write_layer E l)"
      "last (snd (getImage E s)) = last (snd (write_layer E l))" by blast+
    assume "os_MkdirTemp E ''/tmp'' ''layer'' = Inr dir" "layer_Compressed l = Inr b"
      "blob_ReadAll b = Inr data" "os_WriteFile E (dir @ ''/layer.tar.gz'') data 420 = None"
    with wl [of l] show "fst (getImage E s) = Done ()"
      and "last (snd (getImage E s)) = BlobClose"
      unfolding g by blast+
  qed
  from no_scheme_dies [of s E] res extr' old ret show ?thesis by blast
qed

theorem every_fatal_failure_exits_the_process_witness:
  "fst (getImage demo_env ''not-a-valid-ref'') = OsExit 1 \<and>
   last (snd (getImage demo_env ''not-a-valid-ref'')) = Log Fatal ''Image must be in the format oci://<domain>/<org>/<repo>'' \<and>
   fst (getImage demo_env canonical_digest_input) = OsExit 1 \<and>
   last (snd (getImage demo_env canonical_digest_input)) = Log Fatal (''Error parsing repository: repository can only contain the characters '' @
       repositoryChars @ '': org/app@sha256'') \<and>
   fst (getImage env_list_fails ''oci://reg.example.com/org/app:v1'') = OsExit 1 \<and>
   last (snd (getImage env_list_fails ''oci://reg.example.com/org/app:v1'')) = Log Fatal ''Error listing tags: UNAUTHORIZED'' \<and>
   fst (getImage env_parse_fails ''oci://reg.example.com/org/app:v1'') = OsExit 1 \<and>
   last (snd (getImage env_parse_fails ''oci://reg.example.com/org/app:v1'')) = Log Fatal ''Error parsing image reference: could not parse reference'' \<and>
   fst (getImage env_image_fails ''oci://reg.example.com/org/app:v1'') = OsExit 1 \<and>
   last (snd (getImage env_image_fails ''oci://reg.example.com/org/app:v1'')) = Log Fatal ''Error getting image: MANIFEST_UNKNOWN'' \<and>
   fst (getImage env_layers_fails ''oci://reg.example.com/org/app:v1'') = OsExit 1 \<and>
   last (snd (getImage env_layers_fails ''oci://reg.example.com/org/app:v1'')) = Log Fatal ''Error getting layers: bad manifest'' \<and>
   fst (getImage env_mkdir_fails ''oci://reg.example.com/org/app:v1'') = OsExit 1 \<and>
   last (snd (getImage env_mkdir_fails ''oci://reg.example.com/org/app:v1'')) = Log Fatal ''Error creating temp dir: permission denied'' \<and>
   fst (getImage env_compressed_fails ''oci://reg.example.com/org/app:v1'') = OsExit 1 \<and>
   last (snd (getImage env_compressed_fails ''oci://reg.example.com/org/app:v1'')) = Log Fatal ''Error getting compressed layer: BLOB_UNKNOWN'' \<and>
   fst (getImage env_read_fails ''oci://reg.example.com/org/app:v1'') = OsExit 1 \<and>
   last (snd (getImage env_read_fails ''oci://reg.example.com/org/app:v1'')) = Log Fatal ''Error reading blob: unexpected EOF'' \<and>
   fst (getImage env_write_fails ''oci://reg.example.com/org/app:v1'') = OsExit 1 \<and>
   last (snd (getImage env_write_fails ''oci://reg.example.com/org/app:v1'')) = Log Fatal ''Error writing file: no space left on device'' \<and>
   fst (getImage demo_env ''oci://reg.example.com/org/app:v1'') = Done () \<and>
   last (snd (getImage demo_env ''oci://reg.example.com/org/app:v1'')) = BlobClose"
proof -
  have hp: "HasPrefix ''oci://reg.example.com/org/app:v1'' ''oci://''"
    by (simp add: HasPrefix_def)
  have sp: "Split (TrimPrefix ''oci://reg.example.com/org/app:v1'' ''oci://'') CHR '':'' = ''reg.example.com/org/app'' # ''v1'' # []"
    by code_simp
  have f1: "\<not> HasPrefix ''not-a-valid-ref'' ''oci://''"
    by (simp add: HasPrefix_def)
  note i1 = every_fatal_failure_exits_the_process [of "''not-a-valid-ref''" demo_env, THEN conjunct1, rule_format, OF f1]
  have hp2: "HasPrefix canonical_digest_input ''oci://''"
    by (simp add: HasPrefix_def)
  have sp2: "Split (TrimPrefix canonical_digest_input ''oci://'') CHR '':'' = ''reg.example.com/org/app@sha256'' # digest_hex # []"
    by code_simp
  have f2: "name_NewRepository demo_env ''reg.example.com/org/app@sha256'' = Inl (''repository can only contain the characters '' @ repositoryChars @ '': org/app@sha256'')"
    by code_simp
  note i2' = every_fatal_failure_exits_the_process [of canonical_digest_input demo_env, THEN conjunct2, THEN conjunct1, rule_format,
      OF conjI [OF hp2 sp2], THEN conjunct1, rule_format, OF f2]
  from i2'
  have i2: "fst (getImage demo_env canonical_digest_input) = OsExit 1 \<and>
      last (snd (getImage demo_env canonical_digest_input)) = Log Fatal (''Error parsing repository: repository can only contain the characters '' @
        repositoryChars @ '': org/app@sha256'')"
    by simp
  have nr_env_list_fails: "name_NewRepository env_list_fails ''reg.example.com/org/app'' = Inr ''reg.example.com/org/app''"
    by code_simp
  have f3: "remote_List env_list_fails ''reg.example.com/org/app'' = Inl ''UNAUTHORIZED''"
    by (simp add: env_list_fails_def)
  note i3' = every_fatal_failure_exits_the_process [of "''oci://reg.example.com/org/app:v1''" env_list_fails, THEN conjunct2, THEN conjunct1, rule_format,
      OF conjI [OF hp sp], THEN conjunct2, rule_format, OF nr_env_list_fails,
      THEN conjunct1, rule_format, OF f3]
  from i3'
  have i3: "fst (getImage env_list_fails ''oci://reg.example.com/org/app:v1'') = OsExit 1 \<and>
      last (snd (getImage env_list_fails ''oci://reg.example.com/org/app:v1'')) = Log Fatal ''Error listing tags: UNAUTHORIZED''"
    by simp
  have nr_env_parse_fails: "name_NewRepository env_parse_fails ''reg.example.com/org/app'' = Inr ''reg.example.com/org/app''"
    by code_simp
  have f4a: "remote_List env_parse_fails ''reg.example.com/org/app'' = Inr [''latest'', ''v1'']"
    by code_simp
  have f4: "name_ParseReference env_parse_fails (TrimPrefix ''oci://reg.example.com/org/app:v1'' ''oci://'') = Inl ''could not parse reference''"
    by (simp add: env_parse_fails_def)
  note i4' = every_fatal_failure_exits_the_process [of "''oci://reg.example.com/org/app:v1''" env_parse_fails, THEN conjunct2, THEN conjunct1, rule_format,
      OF conjI [OF hp sp], THEN conjunct2, rule_format, OF nr_env_parse_fails,
      THEN conjunct2, rule_format, OF conjI [OF f4a f4]]
  from i4'
  have i4: "fst (getImage env_parse_fails ''oci://reg.example.com/org/app:v1'') = OsExit 1 \<and>
      last (snd (getImage env_parse_fails ''oci://reg.example.com/org/app:v1'')) = Log Fatal ''Error parsing image reference: could not parse reference''"
    by simp
  have rs_env_image_fails: "fst (resolve env_image_fails ''oci://reg.example.com/org/app:v1'') = Done ((NameTag ''reg.example.com/org/app:v1''), ''v1@sha256:aaa'')"
    by code_simp
  have f5: "remote_Image env_image_fails (NameTag ''reg.example.com/org/app:v1'') = Inl ''MANIFEST_UNKNOWN''"
    by (simp add: env_image_fails_def)
  note i5' = every_fatal_failure_exits_the_process [of "''oci://reg.example.com/org/app:v1''" env_image_fails, THEN conjunct2, THEN conjunct2, THEN conjunct1, rule_format,
      OF rs_env_image_fails,
      THEN conjunct1, rule_format, OF f5]
  from i5'
  have i5: "fst (getImage env_image_fails ''oci://reg.example.com/org/app:v1'') = OsExit 1 \<and>
      last (snd (getImage env_image_fails ''oci://reg.example.com/org/app:v1'')) = Log Fatal ''Error getting image: MANIFEST_UNKNOWN''"
    by simp
  have rs_env_layers_fails: "fst (resolve env_layers_fails ''oci://reg.example.com/org/app:v1'') = Done ((NameTag ''reg.example.com/org/app:v1''), ''v1@sha256:aaa'')"
    by code_simp
  have f6a: "remote_Image env_layers_fails (NameTag ''reg.example.com/org/app:v1'') = Inr \<lparr>img_Layers = Inl ''bad manifest''\<rparr>"
    by (simp add: env_layers_fails_def)
  have f6: "img_Layers \<lparr>img_Layers = Inl ''bad manifest''\<rparr> = Inl ''bad manifest''"
    by simp
  note i6' = every_fatal_failure_exits_the_process [of "''oci://reg.example.com/org/app:v1''" env_layers_fails, THEN conjunct2, THEN conjunct2, THEN conjunct1, rule_format,
      OF rs_env_layers_fails,
      THEN conjunct2, rule_format, OF f6a,
      THEN conjunct1, rule_format, OF f6]
  from i6'
  have i6: "fst (getImage env_layers_fails ''oci://reg.example.com/org/app:v1'') = OsExit 1 \<and>
      last (snd (getImage env_layers_fails ''oci://reg.example.com/org/app:v1'')) = Log Fatal ''Error getting layers: bad manifest''"
    by simp
  have ly: "img_Layers demo_image = Inr (demo_layer ''text/plain'' ''abc'' # [demo_layer ''application/gzip'' ''de''])"
    by (simp add: demo_image_def)
  have cp: "layer_Compressed (demo_layer ''text/plain'' ''abc'') = Inr \<lparr>blob_ReadAll = Inr ''abc''\<rparr>"
    by (simp add: demo_layer_def)
  have rd: "blob_ReadAll \<lparr>blob_ReadAll = Inr ''abc''\<rparr> = Inr ''abc''"
    by simp
  have rs_env_mkdir_fails: "fst (resolve env_mkdir_fails ''oci://reg.example.com/org/app:v1'') = Done ((NameTag ''reg.example.com/org/app:v1''), ''v1@sha256:aaa'')"
    by code_simp
  have im7: "remote_Image env_mkdir_fails (NameTag ''reg.example.com/org/app:v1'') = Inr demo_image"
    by (simp add: env_mkdir_fails_def demo_env_def)
  have f7: "os_MkdirTemp env_mkdir_fails ''/tmp'' ''layer'' = Inl ''permission denied''"
    by (simp add: env_mkdir_fails_def)
  note i7' = every_fatal_failure_exits_the_process [of "''oci://reg.example.com/org/app:v1''" env_mkdir_fails, THEN conjunct2, THEN conjunct2, THEN conjunct1, rule_format,
      OF rs_env_mkdir_fails,
      THEN conjunct2, rule_format, OF im7,
      THEN conjunct2, rule_format, OF ly,
      THEN conjunct1, rule_format, OF f7]
  from i7'
  have i7: "fst (getImage env_mkdir_fails ''oci://reg.example.com/org/app:v1'') = OsExit 1 \<and>
      last (snd (getImage env_mkdir_fails ''oci://reg.example.com/org/app:v1'')) = Log Fatal ''Error creating temp dir: permission denied''"
    by simp
  have rs_env_compressed_fails: "fst (resolve env_compressed_fails ''oci://reg.example.com/org/app:v1'') = Done ((NameTag ''reg.example.com/org/app:v1''), ''v1@sha256:aaa'')"
    by code_simp
  have im8: "remote_Image env_compressed_fails (NameTag ''reg.example.com/org/app:v1'') = Inr \<lparr>img_Layers = Inr [closed_layer]\<rparr>"
    by (simp add: env_compressed_fails_def)
  have ly8: "img_Layers \<lparr>img_Layers = Inr [closed_layer]\<rparr> = Inr (closed_layer # [])"
    by simp
  have md8: "os_MkdirTemp env_compressed_fails ''/tmp'' ''layer'' = Inr ''/tmp/layer123''"
    by (simp add: env_compressed_fails_def demo_env_def)
  have f8: "layer_Compressed closed_layer = Inl ''BLOB_UNKNOWN''"
    by (simp add: closed_layer_def)
  note i8' = every_fatal_failure_exits_the_process [of "''oci://reg.example.com/org/app:v1''" env_compressed_fails, THEN conjunct2, THEN conjunct2, THEN conjunct1, rule_format,
      OF rs_env_compressed_fails,
      THEN conjunct2, rule_format, OF im8,
      THEN conjunct2, rule_format, OF ly8,
      THEN conjunct2, rule_format, OF md8,
      THEN conjunct1, rule_format, OF f8]
  from i8'
  have i8: "fst (getImage env_compressed_fails ''oci://reg.example.com/org/app:v1'') = OsExit 1 \<and>
      last (snd (getImage env_compressed_fails ''oci://reg.example.com/org/app:v1'')) = Log Fatal ''Error getting compressed layer: BLOB_UNKNOWN''"
    by simp
  have rs_env_read_fails: "fst (resolve env_read_fails ''oci://reg.example.com/org/app:v1'') = Done ((NameTag ''reg.example.com/org/app:v1''), ''v1@sha256:aaa'')"
    by code_simp
  have im9: "remote_Image env_read_fails (NameTag ''reg.example.com/org/app:v1'') = Inr \<lparr>img_Layers = Inr [broken_layer]\<rparr>"
    by (simp add: env_read_fails_def)
  have ly9: "img_Layers \<lparr>img_Layers = Inr [broken_layer]\<rparr> = Inr (broken_layer # [])"
    by simp
  have md9: "os_MkdirTemp env_read_fails ''/tmp'' ''layer'' = Inr ''/tmp/layer123''"
    by (simp add: env_read_fails_def demo_env_def)
  have cp9: "layer_Compressed broken_layer = Inr \<lparr>blob_ReadAll = Inl ''unexpected EOF''\<rparr>"
    by (simp add: broken_layer_def)
  have f9: "blob_ReadAll \<lparr>blob_ReadAll = Inl ''unexpected EOF''\<rparr> = Inl ''unexpected EOF''"
    by simp
  note i9' = every_fatal_failure_exits_the_process [of "''oci://reg.example.com/org/app:v1''" env_read_fails, THEN conjunct2, THEN conjunct2, THEN conjunct1, rule_format,
      OF rs_env_read_fails,
      THEN conjunct2, rule_format, OF im9,
      THEN conjunct2, rule_format, OF ly9,
      THEN conjunct2, rule_format, OF md9,
      THEN conjunct2, rule_format, OF cp9, THEN conjunct1, rule_format, OF f9]
  from i9'
  have i9: "fst (getImage env_read_fails ''oci://reg.example.com/org/app:v1'') = OsExit 1 \<and>
      last (snd (getImage env_read_fails ''oci://reg.example.com/org/app:v1'')) = Log Fatal ''Error reading blob: unexpected EOF''"
    by simp
  have rs_env_write_fails: "fst (resolve env_write_fails ''oci://reg.example.com/org/app:v1'') = Done ((NameTag ''reg.example.com/org/app:v1''), ''v1@sha256:aaa'')"
    by code_simp
  have im10: "remote_Image env_write_fails (NameTag ''reg.example.com/org/app:v1'') = Inr demo_image"
    by (simp add: env_write_fails_def demo_env_def)
  have md10: "os_MkdirTemp env_write_fails ''/tmp'' ''layer'' = Inr ''/tmp/layer123''"
    by (simp add: env_write_fails_def demo_env_def)
  have f10: "os_WriteFile env_write_fails (''/tmp/layer123'' @ ''/layer.tar.gz'') ''abc'' 420 = Some ''no space left on device''"
    by (simp add: env_write_fails_def)
  note i10' = every_fatal_failure_exits_the_process [of "''oci://reg.example.com/org/app:v1''" env_write_fails, THEN conjunct2, THEN conjunct2, THEN conjunct1, rule_format,
      OF rs_env_write_fails,
      THEN conjunct2, rule_format, OF im10,
      THEN conjunct2, rule_format, OF ly,
      THEN conjunct2, rule_format, OF md10,
      THEN conjunct2, rule_format, OF cp, THEN conjunct2, rule_format, OF rd,
      THEN conjunct1, rule_format, OF f10]
  from i10'
  have i10: "fst (getImage env_write_fails ''oci://reg.example.com/org/app:v1'') = OsExit 1 \<and>
      last (snd (getImage env_write_fails ''oci://reg.example.com/org/app:v1'')) = Log Fatal ''Error writing file: no space left on device''"
    by simp
  have rs_demo_env: "fst (resolve demo_env ''oci://reg.example.com/org/app:v1'') = Done ((NameTag ''reg.example.com/org/app:v1''), ''v1@sha256:aaa'')"
    by code_simp
  have im11: "remote_Image demo_env (NameTag ''reg.example.com/org/app:v1'') = Inr demo_image"
    by (simp add: demo_env_def)
  have md11: "os_MkdirTemp demo_env ''/tmp'' ''layer'' = Inr ''/tmp/layer123''"
    by (simp add: demo_env_def)
  have f11: "os_WriteFile demo_env (''/tmp/layer123'' @ ''/layer.tar.gz'') ''abc'' 420 = None"
    by (simp add: demo_env_def)
  note i11 = every_fatal_failure_exits_the_process [of "''oci://reg.example.com/org/app:v1''" demo_env, THEN conjunct2, THEN conjunct2, THEN conjunct1, rule_format,
      OF rs_demo_env,
      THEN conjunct2, rule_format, OF im11,
      THEN conjunct2, rule_format, OF ly,
      THEN conjunct2, rule_format, OF md11,
      THEN conjunct2, rule_format, OF cp, THEN conjunct2, rule_format, OF rd,
      THEN conjunct2, rule_format, OF f11]
  from i1 i2 i3 i4 i5 i6 i7 i8 i9 i10 i11 show ?thesis by (intro conjI) (erule conjunct1 conjunct2)+
qed

end
